theory Spec2Isabelle
  imports Main
begin

section \<open>Admin control plane of the storage cluster: data model\<close>

text \<open>
  The admin handlers (src/unnamed/part_000) are embedded as functions from the server's
  globals, the external collaborators and the request to the HTTP response together with
  the list of effects the handler performed, in program order.  Go's \<open>error\<close> values
  are their messages: a function returning \<open>error\<close> returns \<open>string option\<close>
  (\<open>None\<close> is \<open>nil\<close>), a function returning \<open>(T, error)\<close> returns
  \<open>string + T\<close> (\<open>Inl\<close> the error).
\<close>

type_synonym goerror = "string option"

text \<open>The API error codes the handlers name; the enumeration itself is declared outside
  src/, its other members are \<open>ErrOtherCode n\<close>.\<close>

datatype APIErrorCode =
    ErrNone
  | ErrInvalidBucketName
  | ErrInvalidObjectName
  | ErrInvalidDuration
  | ErrInvalidMaxKeys
  | ErrInternalError
  | ErrServerNotInitialized
  | ErrMethodNotAllowed
  | ErrMalformedXML
  | ErrNotImplemented
  | ErrAdminConfigNoQuorum
  | ErrOtherCode nat

text \<open>A storage-engine instance (ObjectLayer) and a set of raw storage handles are opaque
  to the handlers; they are told apart by a number.\<close>

datatype ObjectLayer = ObjectLayer nat

datatype StorageDisks = StorageDisks nat

text \<open>\<open>url.Values\<close> is \<open>map[string][]string\<close>.\<close>

type_synonym url_Values = "string \<rightharpoonup> string list"

text \<open>\<open>url.Values.Get\<close>: the first value of the key, the empty string when there is none.\<close>

definition Get :: "url_Values \<Rightarrow> string \<Rightarrow> string" where
  "Get vars key = (case vars key of None \<Rightarrow> [] | Some [] \<Rightarrow> [] | Some (v # _) \<Rightarrow> v)"

definition mgmtBucket :: string where "mgmtBucket = ''bucket''"
definition mgmtObject :: string where "mgmtObject = ''object''"
definition mgmtPrefix :: string where "mgmtPrefix = ''prefix''"
definition mgmtLockDuration :: string where "mgmtLockDuration = ''duration''"
definition mgmtDelimiter :: string where "mgmtDelimiter = ''delimiter''"
definition mgmtMarker :: string where "mgmtMarker = ''marker''"
definition mgmtMaxKey :: string where "mgmtMaxKey = ''max-key''"
definition mgmtDryRun :: string where "mgmtDryRun = ''dry-run''"

text \<open>An administrative request: the parsed query of its URL and the outcome of
  \<open>ioutil.ReadAll(r.Body)\<close>.\<close>

record request =
  url_query :: url_Values
  read_body :: "string + string"

record adminPeer =
  addr :: string
  rpcHandle :: nat

text \<open>The globals the handlers read; \<open>globalObjectAPI\<close> is the one HealFormatHandler
  writes.\<close>

record globals =
  globalObjectAPI :: "ObjectLayer option"
  globalIsXL :: bool
  globalIsEnvCreds :: bool
  globalAdminPeers :: "adminPeer list"

text \<open>Modelled from the spec: \<open>newObjectLayerFn\<close> is missing from src/; it returns the
  current storage-engine handle ("the live, shared reference to the active storage engine
  instance"), nil before the server is initialised.\<close>

definition newObjectLayerFn :: "globals \<Rightarrow> ObjectLayer option" where
  "newObjectLayerFn g = globalObjectAPI g"

text \<open>The effects of a handler, in the order the handler performs them.  A fan-out to the
  peers is one effect.  \<open>EvErrorIf err msg\<close> is a line of the error log
  (\<open>errorIf\<close> logs when its error is not nil).\<close>

datatype event =
    EvCheckBucketExist ObjectLayer string
  | EvGetObjectInfo ObjectLayer string string
  | EvHealBucket ObjectLayer string
  | EvHealObject ObjectLayer string string
  | EvInitStorageDisks
  | EvHealFormatXL StorageDisks
  | EvNewXLObjects StorageDisks
  | EvObjLayerMutexLock
  | EvSetGlobalObjectAPI ObjectLayer
  | EvObjLayerMutexUnlock
  | EvShutdown ObjectLayer
  | EvReInitPeerDisks
  | EvListObjectsHeal ObjectLayer string string string string int
  | EvListPeerLocksInfo string string int
  | EvForceUnlock string string
  | EvWriteTmpConfigPeers string string
  | EvCommitConfigPeers string
  | EvConfigLock
  | EvConfigUnlock
  | EvSendServiceRestart
  | EvUpdateCredsOnPeers string string
  | EvSetCredential string string
  | EvConfigSave
  | EvErrorIf string string

datatype response =
    ErrorResponse APIErrorCode
  | SuccessResponseHeadersOnly
  | SuccessResponseJSON string
  | SuccessResponseXML string
  | StatusOK
  | PanicIndexOutOfRange

text \<open>\<open>errorIf(err, msg)\<close> (the logger, outside src/) writes a line to the error log when
  \<open>err\<close> is not nil.\<close>

definition errorIf :: "goerror \<Rightarrow> string \<Rightarrow> event list" where
  "errorIf err msg = (case err of None \<Rightarrow> [] | Some e \<Rightarrow> [EvErrorIf e msg])"

text \<open>The collaborators every handler uses, all declared outside src/: request
  authentication, the mapping of errors to API codes, and the naming rules for buckets and
  object prefixes.\<close>

record api_deps =
  checkRequestAuthType :: "request \<Rightarrow> APIErrorCode"
  toAPIErrorCode :: "string \<Rightarrow> APIErrorCode"
  bucketNameRules :: "string \<Rightarrow> bool"
  objectPrefixRules :: "string \<Rightarrow> bool"

section \<open>Heal handlers\<close>

text \<open>The collaborators of the heal handlers, declared outside src/: name validation, the
  storage engine's methods and the three steps that build a new engine.\<close>

record heal_deps = api_deps +
  checkBucketExist :: "string \<Rightarrow> ObjectLayer \<Rightarrow> goerror"
  checkBucketAndObjectNames :: "string \<Rightarrow> string \<Rightarrow> goerror"
  GetObjectInfo :: "ObjectLayer \<Rightarrow> string \<Rightarrow> string \<Rightarrow> goerror"
  HealBucket :: "ObjectLayer \<Rightarrow> string \<Rightarrow> goerror"
  HealObject :: "ObjectLayer \<Rightarrow> string \<Rightarrow> string \<Rightarrow> goerror"
  initStorageDisks :: "string + StorageDisks"
  healFormatXL :: "StorageDisks \<Rightarrow> goerror"
  newXLObjects :: "StorageDisks \<Rightarrow> string + ObjectLayer"

text \<open>isDryRun: true if the dry-run query parameter was set.\<close>

definition isDryRun :: "url_Values \<Rightarrow> bool" where
  "isDryRun qval = (case qval mgmtDryRun of Some _ \<Rightarrow> True | None \<Rightarrow> False)"

definition HealBucketHandler ::
  "heal_deps \<Rightarrow> globals \<Rightarrow> request \<Rightarrow> response \<times> event list \<times> globals" where
  "HealBucketHandler d g r =
    (case newObjectLayerFn g of
       None \<Rightarrow> (ErrorResponse ErrServerNotInitialized, [], g)
     | Some objLayer \<Rightarrow>
        let adminAPIErr = checkRequestAuthType d r in
        if adminAPIErr \<noteq> ErrNone then (ErrorResponse adminAPIErr, [], g)
        else
          let vars = url_query r;
              bucket = Get vars mgmtBucket in
          (case checkBucketExist d bucket objLayer of
             Some err \<Rightarrow>
               (ErrorResponse (toAPIErrorCode d err), [EvCheckBucketExist objLayer bucket], g)
           | None \<Rightarrow>
               if isDryRun vars
               then (SuccessResponseHeadersOnly, [EvCheckBucketExist objLayer bucket], g)
               else
                 (case HealBucket d objLayer bucket of
                    Some err \<Rightarrow>
                      (ErrorResponse (toAPIErrorCode d err),
                       [EvCheckBucketExist objLayer bucket, EvHealBucket objLayer bucket], g)
                  | None \<Rightarrow>
                      (SuccessResponseHeadersOnly,
                       [EvCheckBucketExist objLayer bucket, EvHealBucket objLayer bucket], g))))"

definition HealObjectHandler ::
  "heal_deps \<Rightarrow> globals \<Rightarrow> request \<Rightarrow> response \<times> event list \<times> globals" where
  "HealObjectHandler d g r =
    (case newObjectLayerFn g of
       None \<Rightarrow> (ErrorResponse ErrServerNotInitialized, [], g)
     | Some objLayer \<Rightarrow>
        let adminAPIErr = checkRequestAuthType d r in
        if adminAPIErr \<noteq> ErrNone then (ErrorResponse adminAPIErr, [], g)
        else
          let vars = url_query r;
              bucket = Get vars mgmtBucket;
              object = Get vars mgmtObject in
          (case checkBucketAndObjectNames d bucket object of
             Some err \<Rightarrow> (ErrorResponse (toAPIErrorCode d err), [], g)
           | None \<Rightarrow>
               (case GetObjectInfo d objLayer bucket object of
                  Some err \<Rightarrow>
                    (ErrorResponse (toAPIErrorCode d err),
                     [EvGetObjectInfo objLayer bucket object], g)
                | None \<Rightarrow>
                    if isDryRun vars
                    then (SuccessResponseHeadersOnly, [EvGetObjectInfo objLayer bucket object], g)
                    else
                      (case HealObject d objLayer bucket object of
                         Some err \<Rightarrow>
                           (ErrorResponse (toAPIErrorCode d err),
                            [EvGetObjectInfo objLayer bucket object,
                             EvHealObject objLayer bucket object], g)
                       | None \<Rightarrow>
                           (SuccessResponseHeadersOnly,
                            [EvGetObjectInfo objLayer bucket object,
                             EvHealObject objLayer bucket object], g)))))"

definition HealFormatHandler ::
  "heal_deps \<Rightarrow> globals \<Rightarrow> request \<Rightarrow> response \<times> event list \<times> globals" where
  "HealFormatHandler d g r =
    (case newObjectLayerFn g of
       None \<Rightarrow> (ErrorResponse ErrServerNotInitialized, [], g)
     | Some objectAPI \<Rightarrow>
        let adminAPIErr = checkRequestAuthType d r in
        if adminAPIErr \<noteq> ErrNone then (ErrorResponse adminAPIErr, [], g)
        else if \<not> globalIsXL g then (ErrorResponse ErrNotImplemented, [], g)
        else
          let vars = url_query r in
          if isDryRun vars then (SuccessResponseHeadersOnly, [], g)
          else
            (case initStorageDisks d of
               Inl err \<Rightarrow> (ErrorResponse (toAPIErrorCode d err), [EvInitStorageDisks], g)
             | Inr bootstrapDisks \<Rightarrow>
                (case healFormatXL d bootstrapDisks of
                   Some err \<Rightarrow>
                     (ErrorResponse (toAPIErrorCode d err),
                      [EvInitStorageDisks, EvHealFormatXL bootstrapDisks], g)
                 | None \<Rightarrow>
                    (case newXLObjects d bootstrapDisks of
                       Inl err \<Rightarrow>
                         (ErrorResponse (toAPIErrorCode d err),
                          [EvInitStorageDisks, EvHealFormatXL bootstrapDisks,
                           EvNewXLObjects bootstrapDisks], g)
                     | Inr newObjectAPI \<Rightarrow>
                         (SuccessResponseHeadersOnly,
                          [EvInitStorageDisks, EvHealFormatXL bootstrapDisks,
                           EvNewXLObjects bootstrapDisks,
                           EvObjLayerMutexLock, EvSetGlobalObjectAPI newObjectAPI,
                           EvObjLayerMutexUnlock,
                           EvShutdown objectAPI, EvReInitPeerDisks],
                          g\<lparr>globalObjectAPI := Some newObjectAPI\<rparr>)))))"

section \<open>Query validation\<close>

text \<open>Modelled from the spec: \<open>IsValidBucketName\<close> is missing from src/.  "Bucket name must
  be syntactically valid and non-empty" (the callers note "empty bucket name is invalid");
  the naming rules themselves are the collaborator \<open>bucketNameRules\<close>.\<close>

definition IsValidBucketName :: "('a api_deps_scheme) \<Rightarrow> string \<Rightarrow> bool" where
  "IsValidBucketName d bucket = (bucket \<noteq> [] \<and> bucketNameRules d bucket)"

text \<open>Modelled from the spec: \<open>IsValidObjectPrefix\<close> is missing from src/.  "Prefix may be
  empty (matches all)" (the callers note "empty prefix is valid"); the rules for a
  non-empty prefix are the collaborator \<open>objectPrefixRules\<close>.\<close>

definition IsValidObjectPrefix :: "('a api_deps_scheme) \<Rightarrow> string \<Rightarrow> bool" where
  "IsValidObjectPrefix d prefix = (prefix = [] \<or> objectPrefixRules d prefix)"

section \<open>Lock handlers\<close>

text \<open>A lock record as the peers report it; the handlers read \<open>Bucket\<close> and
  \<open>Object\<close>.\<close>

record LockRecord =
  Bucket :: string
  Object :: string
  lockID :: string
  heldSince :: int
  lockSource :: string

text \<open>Collaborators of the lock handlers: Go's \<open>time.ParseDuration\<close> (a duration is a
  number of nanoseconds), the listing of the peers' locks, and \<open>json.Marshal\<close> on the
  list of lock records.\<close>

record lock_deps = api_deps +
  ParseDuration :: "string \<Rightarrow> string + int"
  listPeerLocksInfo :: "adminPeer list \<Rightarrow> string \<Rightarrow> string \<Rightarrow> int \<Rightarrow> string + LockRecord list"
  jsonMarshal :: "LockRecord list \<Rightarrow> string + string"

text \<open>validateLockQueryParams returns (bucket, prefix, duration, code); the model returns
  beside them the lines it wrote to the error log.\<close>

definition validateLockQueryParams ::
  "('a lock_deps_scheme) \<Rightarrow> url_Values \<Rightarrow> (string \<times> string \<times> int \<times> APIErrorCode) \<times> event list" where
  "validateLockQueryParams d vars =
    (let bucket = Get vars mgmtBucket;
         prefix = Get vars mgmtPrefix;
         durationStr = Get vars mgmtLockDuration in
     if \<not> IsValidBucketName d bucket then (([], [], 0, ErrInvalidBucketName), [])
     else if \<not> IsValidObjectPrefix d prefix then (([], [], 0, ErrInvalidObjectName), [])
     else
       let durationStr = (if durationStr = [] then ''0s'' else durationStr) in
       (case ParseDuration d durationStr of
          Inl err \<Rightarrow>
            (([], [], 0, ErrInvalidDuration),
             errorIf (Some err) ''Failed to parse duration passed as query value.'')
        | Inr duration \<Rightarrow> ((bucket, prefix, duration, ErrNone), [])))"

definition ListLocksHandler ::
  "('a lock_deps_scheme) \<Rightarrow> globals \<Rightarrow> request \<Rightarrow> response \<times> event list" where
  "ListLocksHandler d g r =
    (let adminAPIErr = checkRequestAuthType d r in
     if adminAPIErr \<noteq> ErrNone then (ErrorResponse adminAPIErr, [])
     else
       let vars = url_query r in
       (case validateLockQueryParams d vars of
          ((bucket, prefix, duration, adminAPIErr), logs) \<Rightarrow>
            if adminAPIErr \<noteq> ErrNone then (ErrorResponse adminAPIErr, logs)
            else
              (case listPeerLocksInfo d (globalAdminPeers g) bucket prefix duration of
                 Inl err \<Rightarrow>
                   (ErrorResponse ErrInternalError,
                    logs @ [EvListPeerLocksInfo bucket prefix duration] @
                    errorIf (Some err) ''Failed to fetch lock information from remote nodes.'')
               | Inr volLocks \<Rightarrow>
                   (case jsonMarshal d volLocks of
                      Inl err \<Rightarrow>
                        (ErrorResponse ErrInternalError,
                         logs @ [EvListPeerLocksInfo bucket prefix duration] @
                         errorIf (Some err) ''Failed to marshal lock information into json.'')
                    | Inr jsonBytes \<Rightarrow>
                        (SuccessResponseJSON jsonBytes,
                         logs @ [EvListPeerLocksInfo bucket prefix duration])))))"

definition ClearLocksHandler ::
  "('a lock_deps_scheme) \<Rightarrow> globals \<Rightarrow> request \<Rightarrow> response \<times> event list" where
  "ClearLocksHandler d g r =
    (let adminAPIErr = checkRequestAuthType d r in
     if adminAPIErr \<noteq> ErrNone then (ErrorResponse adminAPIErr, [])
     else
       let vars = url_query r in
       (case validateLockQueryParams d vars of
          ((bucket, prefix, duration, adminAPIErr), logs) \<Rightarrow>
            if adminAPIErr \<noteq> ErrNone then (ErrorResponse adminAPIErr, logs)
            else
              (case listPeerLocksInfo d (globalAdminPeers g) bucket prefix duration of
                 Inl err \<Rightarrow>
                   (ErrorResponse ErrInternalError,
                    logs @ [EvListPeerLocksInfo bucket prefix duration] @
                    errorIf (Some err) ''Failed to fetch lock information from remote nodes.'')
               | Inr volLocks \<Rightarrow>
                   (case jsonMarshal d volLocks of
                      Inl err \<Rightarrow>
                        (ErrorResponse ErrInternalError,
                         logs @ [EvListPeerLocksInfo bucket prefix duration] @
                         errorIf (Some err) ''Failed to marshal lock information into json.'')
                    | Inr jsonBytes \<Rightarrow>
                        (SuccessResponseJSON jsonBytes,
                         logs @ [EvListPeerLocksInfo bucket prefix duration] @
                         map (\<lambda>volLock. EvForceUnlock (Bucket volLock) (Object volLock)) volLocks)))))"

section \<open>Listing the objects that need healing\<close>

text \<open>Collaborators: Go's \<open>strconv.Atoi\<close>, the checks of \<open>validateListObjectsArgs\<close> other
  than the sign of max-key, the storage engine's listing (its result is opaque) and the
  construction and encoding of the XML listing.\<close>

record heallist_deps = api_deps +
  Atoi :: "string \<Rightarrow> string + int"
  listObjectsArgsRules :: "string \<Rightarrow> string \<Rightarrow> string \<Rightarrow> APIErrorCode"
  ListObjectsHeal ::
    "ObjectLayer \<Rightarrow> string \<Rightarrow> string \<Rightarrow> string \<Rightarrow> string \<Rightarrow> int \<Rightarrow> string + string list"
  generateListObjectsV1Response ::
    "string \<Rightarrow> string \<Rightarrow> string \<Rightarrow> string \<Rightarrow> int \<Rightarrow> string list \<Rightarrow> string"
  encodeResponse :: "string \<Rightarrow> string"

text \<open>Modelled from the spec: \<open>validateListObjectsArgs\<close> is missing from src/.  "max-key
  must parse as a non-negative integer": a negative max-key is the invalid-max-keys
  error; what it checks of prefix, marker and delimiter is the collaborator
  \<open>listObjectsArgsRules\<close>.\<close>

definition validateListObjectsArgs ::
  "('a heallist_deps_scheme) \<Rightarrow> string \<Rightarrow> string \<Rightarrow> string \<Rightarrow> int \<Rightarrow> APIErrorCode" where
  "validateListObjectsArgs d prefix marker delimiter maxKeys =
    (if maxKeys < 0 then ErrInvalidMaxKeys else listObjectsArgsRules d prefix marker delimiter)"

definition validateHealQueryParams ::
  "('a heallist_deps_scheme) \<Rightarrow> url_Values \<Rightarrow>
     string \<times> string \<times> string \<times> string \<times> int \<times> APIErrorCode" where
  "validateHealQueryParams d vars =
    (let bucket = Get vars mgmtBucket;
         prefix = Get vars mgmtPrefix;
         marker = Get vars mgmtMarker;
         delimiter = Get vars mgmtDelimiter;
         maxKeyStr = Get vars mgmtMaxKey in
     if \<not> IsValidBucketName d bucket then ([], [], [], [], 0, ErrInvalidBucketName)
     else if \<not> IsValidObjectPrefix d prefix then ([], [], [], [], 0, ErrInvalidObjectName)
     else
       (case Atoi d maxKeyStr of
          Inl err \<Rightarrow> ([], [], [], [], 0, ErrInvalidMaxKeys)
        | Inr maxKey \<Rightarrow>
            let apiErr = validateListObjectsArgs d prefix marker delimiter maxKey in
            if apiErr \<noteq> ErrNone then ([], [], [], [], 0, apiErr)
            else (bucket, prefix, marker, delimiter, maxKey, ErrNone)))"

definition ListObjectsHealHandler ::
  "('a heallist_deps_scheme) \<Rightarrow> globals \<Rightarrow> request \<Rightarrow> response \<times> event list" where
  "ListObjectsHealHandler d g r =
    (case newObjectLayerFn g of
       None \<Rightarrow> (ErrorResponse ErrServerNotInitialized, [])
     | Some objLayer \<Rightarrow>
        let adminAPIErr = checkRequestAuthType d r in
        if adminAPIErr \<noteq> ErrNone then (ErrorResponse adminAPIErr, [])
        else
          let vars = url_query r in
          (case validateHealQueryParams d vars of
             (bucket, prefix, marker, delimiter, maxKey, adminAPIErr) \<Rightarrow>
               if adminAPIErr \<noteq> ErrNone then (ErrorResponse adminAPIErr, [])
               else
                 (case ListObjectsHeal d objLayer bucket prefix marker delimiter maxKey of
                    Inl err \<Rightarrow>
                      (ErrorResponse (toAPIErrorCode d err),
                       [EvListObjectsHeal objLayer bucket prefix marker delimiter maxKey])
                  | Inr objectInfos \<Rightarrow>
                      let listResponse =
                            generateListObjectsV1Response d bucket prefix marker delimiter maxKey
                              objectInfos in
                      (SuccessResponseXML (encodeResponse d listResponse),
                       [EvListObjectsHeal objLayer bucket prefix marker delimiter maxKey]))))"

section \<open>Setting the configuration\<close>

definition minioConfigTmpFormat :: "string \<Rightarrow> string" where
  "minioConfigTmpFormat uuid = ''config-'' @ uuid @ ''.json''"

text \<open>Collaborators of the set-config handler: the fresh identifier \<open>mustGetUUID\<close> drew
  for this request, what each peer answers when asked to write the temporary file and to
  promote it, and the JSON encoder.\<close>

record nodeSummary =
  Name :: string
  ErrSet :: bool
  ErrMsg :: string

record setConfigResult =
  NodeResults :: "nodeSummary list"
  Status :: bool

record config_deps = api_deps +
  mustGetUUID :: string
  WriteTmpConfig :: "adminPeer \<Rightarrow> string \<Rightarrow> string \<Rightarrow> goerror"
  CommitConfig :: "adminPeer \<Rightarrow> string \<Rightarrow> goerror"
  jsonEncode :: "setConfigResult \<Rightarrow> string + string"

text \<open>Modelled from the spec: \<open>writeTmpConfigPeers\<close> and \<open>commitConfigPeers\<close> are missing
  from src/.  They fan one operation out to every peer and "return a result slice
  aligned by peer index, regardless of individual failures": one slot per peer, in peer
  order.\<close>

definition writeTmpConfigPeers ::
  "('a config_deps_scheme) \<Rightarrow> adminPeer list \<Rightarrow> string \<Rightarrow> string \<Rightarrow> goerror list" where
  "writeTmpConfigPeers d peers tmpFileName configBytes =
    map (\<lambda>peer. WriteTmpConfig d peer tmpFileName configBytes) peers"

definition commitConfigPeers ::
  "('a config_deps_scheme) \<Rightarrow> adminPeer list \<Rightarrow> string \<Rightarrow> goerror list" where
  "commitConfigPeers d peers tmpFileName =
    map (\<lambda>peer. CommitConfig d peer tmpFileName) peers"

definition errXLWriteQuorum :: string where
  "errXLWriteQuorum = ''errXLWriteQuorum''"

text \<open>Modelled from the spec: \<open>reduceWriteQuorumErrs\<close> is missing from src/.  It is the
  QuorumEvaluator's \<open>evaluate(errors, required)\<close>: "a decision is success iff at least
  that many slots are error-free", "when exactly required successes occur, the decision
  is success", and otherwise "the representative error is any one of the non-nil errors
  (first encountered)"; with no error in any slot the failure is the no-quorum condition
  itself.  The list of ignored errors is nil at both calls under src/, and the spec's
  \<open>evaluate\<close> has none: the model does not read it.\<close>

definition reduceWriteQuorumErrs :: "goerror list \<Rightarrow> string list \<Rightarrow> nat \<Rightarrow> goerror" where
  "reduceWriteQuorumErrs errs ignoredErrs quorum =
    (if quorum \<le> length (filter (\<lambda>e. e = None) errs) then None
     else (case filter (\<lambda>e. e \<noteq> None) errs of
             [] \<Rightarrow> Some errXLWriteQuorum
           | e # _ \<Rightarrow> e))"

text \<open>\<open>fmt.Sprintf("%v", err)\<close>: the message of the error, \<open><nil>\<close> for nil.\<close>

definition sprintf_v :: "goerror \<Rightarrow> string" where
  "sprintf_v err = (case err of None \<Rightarrow> ''<nil>'' | Some msg \<Rightarrow> msg)"

text \<open>The loop of writeSetConfigResponse over the indices of \<open>errs\<close>; \<open>peers[i]\<close> with
  \<open>i\<close> out of range panics (\<open>None\<close>).\<close>

definition nodeResultsStep ::
  "adminPeer list \<Rightarrow> goerror list \<Rightarrow> nat \<Rightarrow> nodeSummary list option \<Rightarrow> nodeSummary list option" where
  "nodeResultsStep peers errs i acc =
    (case acc of
       None \<Rightarrow> None
     | Some nodeResults \<Rightarrow>
         if i < length peers
         then Some (nodeResults @
                [\<lparr>Name = addr (peers ! i), ErrSet = (errs ! i \<noteq> None), ErrMsg = sprintf_v (errs ! i)\<rparr>])
         else None)"

definition writeSetConfigResponse ::
  "('a config_deps_scheme) \<Rightarrow> adminPeer list \<Rightarrow> goerror list \<Rightarrow> bool \<Rightarrow> response" where
  "writeSetConfigResponse d peers errs status =
    (case fold (nodeResultsStep peers errs) [0..<length errs] (Some []) of
       None \<Rightarrow> PanicIndexOutOfRange
     | Some nodeResults \<Rightarrow>
         let result = \<lparr>NodeResults = nodeResults, Status = status\<rparr> in
         (case jsonEncode d result of
            Inl jsonErr \<Rightarrow> ErrorResponse (toAPIErrorCode d jsonErr)
          | Inr resultBuf \<Rightarrow> SuccessResponseJSON resultBuf))"

definition SetConfigHandler ::
  "('a config_deps_scheme) \<Rightarrow> globals \<Rightarrow> request \<Rightarrow> response \<times> event list" where
  "SetConfigHandler d g r =
    (case newObjectLayerFn g of
       None \<Rightarrow> (ErrorResponse ErrServerNotInitialized, [])
     | Some objectAPI \<Rightarrow>
        let adminAPIErr = checkRequestAuthType d r in
        if adminAPIErr \<noteq> ErrNone then (ErrorResponse adminAPIErr, [])
        else
          (case read_body r of
             Inl err \<Rightarrow>
               (ErrorResponse (toAPIErrorCode d err),
                errorIf (Some err) ''Failed to read config from request body.'')
           | Inr configBytes \<Rightarrow>
               let tmpFileName = minioConfigTmpFormat (mustGetUUID d);
                   errs = writeTmpConfigPeers d (globalAdminPeers g) tmpFileName configBytes;
                   rErr = reduceWriteQuorumErrs errs [] (length (globalAdminPeers g) div 2 + 1) in
               if rErr \<noteq> None
               then (writeSetConfigResponse d (globalAdminPeers g) errs False,
                     [EvWriteTmpConfigPeers tmpFileName configBytes])
               else
                 let errs = commitConfigPeers d (globalAdminPeers g) tmpFileName;
                     rErr = reduceWriteQuorumErrs errs [] (length (globalAdminPeers g) div 2 + 1) in
                 if rErr \<noteq> None
                 then (writeSetConfigResponse d (globalAdminPeers g) errs False,
                       [EvWriteTmpConfigPeers tmpFileName configBytes, EvConfigLock,
                        EvCommitConfigPeers tmpFileName, EvConfigUnlock])
                 else
                   let resp = writeSetConfigResponse d (globalAdminPeers g) errs True in
                   if resp = PanicIndexOutOfRange
                   then (resp,
                         [EvWriteTmpConfigPeers tmpFileName configBytes, EvConfigLock,
                          EvCommitConfigPeers tmpFileName, EvConfigUnlock])
                   else (resp,
                         [EvWriteTmpConfigPeers tmpFileName configBytes, EvConfigLock,
                          EvCommitConfigPeers tmpFileName, EvSendServiceRestart,
                          EvConfigUnlock])))"

section \<open>Setting the credentials\<close>

record setCredsReq =
  Username :: string
  Password :: string

record credential =
  AccessKey :: string
  SecretKey :: string

text \<open>Collaborators of the credentials handler: \<open>xml.Unmarshal\<close> into a setCredsReq, the
  check of the keys, the fan-out to the peers (a map from peer to error, here in the order
  the handler ranges over it) and the save of the local configuration.\<close>

record creds_deps = api_deps +
  xmlUnmarshal :: "string \<Rightarrow> string + setCredsReq"
  validateAuthKeys :: "string \<Rightarrow> string \<Rightarrow> goerror"
  updateCredsOnPeers :: "credential \<Rightarrow> (string \<times> goerror) list"
  serverConfigSave :: "credential \<Rightarrow> goerror"

definition ServiceCredentialsHandler ::
  "('a creds_deps_scheme) \<Rightarrow> globals \<Rightarrow> request \<Rightarrow> response \<times> event list" where
  "ServiceCredentialsHandler d g r =
    (let adminAPIErr = checkRequestAuthType d r in
     if adminAPIErr \<noteq> ErrNone then (ErrorResponse adminAPIErr, [])
     else if globalIsEnvCreds g then (ErrorResponse ErrMethodNotAllowed, [])
     else
       (case read_body r of
          Inl err \<Rightarrow> (ErrorResponse ErrInternalError, [])
        | Inr inputData \<Rightarrow>
           (case xmlUnmarshal d inputData of
              Inl err \<Rightarrow>
                (ErrorResponse ErrMalformedXML,
                 errorIf (Some err) ''Cannot unmarshal credentials request'')
            | Inr req \<Rightarrow>
               (case validateAuthKeys d (Username req) (Password req) of
                  Some err \<Rightarrow> (ErrorResponse (toAPIErrorCode d err), [])
                | None \<Rightarrow>
                   let creds = \<lparr>AccessKey = Username req, SecretKey = Password req\<rparr>;
                       updateErrs = updateCredsOnPeers d creds;
                       logs = concat (map (\<lambda>(peer, err).
                                errorIf err (''Unable to update credentials on peer '' @ peer @ ''.''))
                                updateErrs);
                       effects = [EvUpdateCredsOnPeers (AccessKey creds) (SecretKey creds)] @ logs @
                                 [EvSetCredential (AccessKey creds) (SecretKey creds), EvConfigSave] in
                   (case serverConfigSave d creds of
                      Some err \<Rightarrow> (ErrorResponse ErrInternalError, effects)
                    | None \<Rightarrow> (StatusOK, effects))))))"

section \<open>Reading effect traces\<close>

text \<open>The effects by which a heal handler changes something: a heal call on the engine,
  the reinitialisation of the storage handles, the format heal, the construction of a
  new engine, the swap of the engine handle, the shutdown of an engine and the
  notification of the peers.  \<open>withoutDryRun r\<close> is the request \<open>r\<close> without the dry-run
  key.\<close>

fun healMutation :: "event \<Rightarrow> bool" where
  "healMutation (EvHealBucket _ _) = True"
| "healMutation (EvHealObject _ _ _) = True"
| "healMutation EvInitStorageDisks = True"
| "healMutation (EvHealFormatXL _) = True"
| "healMutation (EvNewXLObjects _) = True"
| "healMutation (EvSetGlobalObjectAPI _) = True"
| "healMutation (EvShutdown _) = True"
| "healMutation EvReInitPeerDisks = True"
| "healMutation _ = False"

fun isForceUnlock :: "event \<Rightarrow> bool" where
  "isForceUnlock (EvForceUnlock _ _) = True"
| "isForceUnlock _ = False"

definition withoutDryRun :: "request \<Rightarrow> request" where
  "withoutDryRun r = r\<lparr>url_query := (url_query r)(mgmtDryRun := None)\<rparr>"

section \<open>Concrete inputs\<close>

text \<open>A cluster of five peers with an initialised erasure-coded engine, a request with an
  empty query, and set-config collaborators under which the first \<open>k\<close> peers accept the
  temporary file and the first \<open>j\<close> peers promote it.\<close>

definition peers5 :: "adminPeer list" where
  "peers5 =
    [\<lparr>addr = ''node0'', rpcHandle = 0\<rparr>, \<lparr>addr = ''node1'', rpcHandle = 1\<rparr>,
     \<lparr>addr = ''node2'', rpcHandle = 2\<rparr>, \<lparr>addr = ''node3'', rpcHandle = 3\<rparr>,
     \<lparr>addr = ''node4'', rpcHandle = 4\<rparr>]"

definition globals5 :: globals where
  "globals5 = \<lparr>globalObjectAPI = Some (ObjectLayer 1), globalIsXL = True,
               globalIsEnvCreds = False, globalAdminPeers = peers5\<rparr>"

definition request0 :: request where
  "request0 = \<lparr>url_query = Map.empty, read_body = Inr ''{}''\<rparr>"

definition cfgDeps :: "nat \<Rightarrow> nat \<Rightarrow> config_deps" where
  "cfgDeps k j =
    \<lparr>checkRequestAuthType = (\<lambda>_. ErrNone), toAPIErrorCode = (\<lambda>_. ErrInternalError),
     bucketNameRules = (\<lambda>b. 3 \<le> length b), objectPrefixRules = (\<lambda>p. length p \<le> 1024),
     mustGetUUID = ''u1'',
     WriteTmpConfig = (\<lambda>peer _ _. if rpcHandle peer < k then None else Some ''timeout''),
     CommitConfig = (\<lambda>peer _. if rpcHandle peer < j then None else Some ''rename failed''),
     jsonEncode = (\<lambda>res. Inr (concat (map (\<lambda>n. Name n @ (if ErrSet n then ''!'' else ''+'')) (NodeResults res)) @
                               (if Status res then ''T'' else ''F'')))\<rparr>"

text \<open>Heal collaborators under which every step succeeds, a heal request for object
  \<open>a.jpg\<close> of bucket \<open>photos\<close> (with \<open>dry-run=false\<close> in its query when \<open>dry\<close>), and
  lock collaborators that report two locks under the prefix asked for.\<close>

definition healDeps :: heal_deps where
  "healDeps =
    \<lparr>checkRequestAuthType = (\<lambda>_. ErrNone), toAPIErrorCode = (\<lambda>_. ErrOtherCode 0),
     bucketNameRules = (\<lambda>b. 3 \<le> length b), objectPrefixRules = (\<lambda>p. length p \<le> 1024),
     checkBucketExist = (\<lambda>_ _. None), checkBucketAndObjectNames = (\<lambda>_ _. None),
     GetObjectInfo = (\<lambda>_ _ _. None), HealBucket = (\<lambda>_ _. None), HealObject = (\<lambda>_ _ _. None),
     initStorageDisks = Inr (StorageDisks 7), healFormatXL = (\<lambda>_. None),
     newXLObjects = (\<lambda>_. Inr (ObjectLayer 2))\<rparr>"

definition healRequest :: "bool \<Rightarrow> request" where
  "healRequest dry =
    \<lparr>url_query = (if dry then [''bucket'' \<mapsto> [''photos''], ''object'' \<mapsto> [''a.jpg''], ''dry-run'' \<mapsto> [''false'']]
                  else [''bucket'' \<mapsto> [''photos''], ''object'' \<mapsto> [''a.jpg'']]),
     read_body = Inr []\<rparr>"

definition lockDeps :: lock_deps where
  "lockDeps =
    \<lparr>checkRequestAuthType = (\<lambda>_. ErrNone), toAPIErrorCode = (\<lambda>_. ErrOtherCode 0),
     bucketNameRules = (\<lambda>b. 3 \<le> length b), objectPrefixRules = (\<lambda>p. length p \<le> 1024),
     ParseDuration = (\<lambda>s. if s = ''0s'' then Inr 0
                           else if s = ''1h'' then Inr 3600000000000
                           else Inl ''time: invalid duration''),
     listPeerLocksInfo = (\<lambda>peers bucket prefix duration.
        Inr [\<lparr>Bucket = bucket, Object = prefix @ ''a.jpg'', lockID = ''op1'', heldSince = 10,
               lockSource = ''node0''\<rparr>,
             \<lparr>Bucket = bucket, Object = prefix @ ''b.jpg'', lockID = ''op2'', heldSince = 20,
               lockSource = ''node3''\<rparr>]),
     jsonMarshal = (\<lambda>locks. Inr (concat (map (\<lambda>l. Bucket l @ ''/'' @ Object l @ '';'') locks)))\<rparr>"

definition lockRequest :: "string \<Rightarrow> request" where
  "lockRequest bucket = \<lparr>url_query = [''bucket'' \<mapsto> [bucket]], read_body = Inr []\<rparr>"

text \<open>A decimal parser that stands for \<open>strconv.Atoi\<close> in the concrete inputs: an
  optional minus sign and at least one digit.\<close>

fun parseDigits :: "string \<Rightarrow> int \<Rightarrow> int option" where
  "parseDigits [] acc = Some acc"
| "parseDigits (c # cs) acc =
     (case map_of [(CHR ''0'', 0), (CHR ''1'', 1), (CHR ''2'', 2), (CHR ''3'', 3), (CHR ''4'', 4),
                   (CHR ''5'', 5), (CHR ''6'', 6), (CHR ''7'', 7), (CHR ''8'', 8), (CHR ''9'', 9)] c of
        None \<Rightarrow> None
      | Some v \<Rightarrow> parseDigits cs (10 * acc + v))"

definition decimalAtoi :: "string \<Rightarrow> string + int" where
  "decimalAtoi s =
    (case s of
       [] \<Rightarrow> Inl ''invalid syntax''
     | c # cs \<Rightarrow>
         if c = CHR ''-''
         then (case (if cs = [] then None else parseDigits cs 0) of
                 None \<Rightarrow> Inl ''invalid syntax'' | Some n \<Rightarrow> Inr (- n))
         else (case parseDigits s 0 of None \<Rightarrow> Inl ''invalid syntax'' | Some n \<Rightarrow> Inr n))"

text \<open>Collaborators of the heal listing, a listing request with a bucket and a max-key,
  credential collaborators that unmarshal one request document and report the given
  per-peer errors, and a lock request that carries a duration.\<close>

definition heallistDeps :: heallist_deps where
  "heallistDeps =
    \<lparr>checkRequestAuthType = (\<lambda>_. ErrNone), toAPIErrorCode = (\<lambda>_. ErrOtherCode 0),
     bucketNameRules = (\<lambda>b. 3 \<le> length b), objectPrefixRules = (\<lambda>p. length p \<le> 1024),
     Atoi = decimalAtoi,
     listObjectsArgsRules = (\<lambda>prefix marker delimiter.
        if delimiter \<noteq> [] \<and> delimiter \<noteq> ''/'' then ErrNotImplemented else ErrNone),
     ListObjectsHeal = (\<lambda>_ _ _ _ _ _. Inr [''a.jpg'']),
     generateListObjectsV1Response = (\<lambda>bucket _ _ _ _ objects. bucket @ '':'' @ concat objects),
     encodeResponse = (\<lambda>doc. ''<xml>'' @ doc @ ''</xml>'')\<rparr>"

definition heallistRequest :: "string \<Rightarrow> string \<Rightarrow> request" where
  "heallistRequest bucket maxKey =
    \<lparr>url_query = [''bucket'' \<mapsto> [bucket], ''max-key'' \<mapsto> [maxKey]], read_body = Inr []\<rparr>"

definition credsDeps :: "(string \<times> goerror) list \<Rightarrow> creds_deps" where
  "credsDeps peerErrs =
    \<lparr>checkRequestAuthType = (\<lambda>_. ErrNone), toAPIErrorCode = (\<lambda>_. ErrOtherCode 0),
     bucketNameRules = (\<lambda>b. 3 \<le> length b), objectPrefixRules = (\<lambda>p. length p \<le> 1024),
     xmlUnmarshal = (\<lambda>body.
        if body = ''<setCredsReq><username>admin</username><password>s3cr3tpass</password></setCredsReq>''
        then Inr \<lparr>Username = ''admin'', Password = ''s3cr3tpass''\<rparr>
        else Inl ''EOF''),
     validateAuthKeys = (\<lambda>user pass.
        if length user < 5 \<or> length pass < 8 then Some ''invalid keys'' else None),
     updateCredsOnPeers = (\<lambda>_. peerErrs),
     serverConfigSave = (\<lambda>_. None)\<rparr>"

definition credsRequest :: request where
  "credsRequest =
    \<lparr>url_query = Map.empty,
     read_body = Inr ''<setCredsReq><username>admin</username><password>s3cr3tpass</password></setCredsReq>''\<rparr>"

definition lockRequestOlderThan :: "string \<Rightarrow> string \<Rightarrow> request" where
  "lockRequestOlderThan bucket duration =
    \<lparr>url_query = [''bucket'' \<mapsto> [bucket], ''duration'' \<mapsto> [duration]], read_body = Inr []\<rparr>"

section \<open>The quorum evaluator and the per-node result list\<close>

lemma fold_nodeResultsStep_upt:
  "n \<le> length peers \<Longrightarrow>
   fold (nodeResultsStep peers errs) [0..<n] (Some []) =
   Some (map (\<lambda>i. \<lparr>Name = addr (peers ! i), ErrSet = (errs ! i \<noteq> None), ErrMsg = sprintf_v (errs ! i)\<rparr>) [0..<n])"
  by (induction n) (simp_all add: nodeResultsStep_def)

lemma nodeResults_of_fanout:
  "fold (nodeResultsStep peers (map f peers)) [0..<length (map f peers)] (Some []) =
   Some (map (\<lambda>peer. \<lparr>Name = addr peer, ErrSet = (f peer \<noteq> None), ErrMsg = sprintf_v (f peer)\<rparr>) peers)"
proof -
  have "map (\<lambda>i. \<lparr>Name = addr (peers ! i), ErrSet = (map f peers ! i \<noteq> None), ErrMsg = sprintf_v (map f peers ! i)\<rparr>) [0..<length peers]
      = map (\<lambda>peer. \<lparr>Name = addr peer, ErrSet = (f peer \<noteq> None), ErrMsg = sprintf_v (f peer)\<rparr>) peers"
    by (rule nth_equalityI) simp_all
  then show ?thesis by (simp add: fold_nodeResultsStep_upt)
qed

lemma writeSetConfigResponse_fanout:
  "writeSetConfigResponse d peers (map f peers) status =
    (case jsonEncode d \<lparr>NodeResults = map (\<lambda>peer. \<lparr>Name = addr peer, ErrSet = (f peer \<noteq> None), ErrMsg = sprintf_v (f peer)\<rparr>) peers, Status = status\<rparr> of
       Inl jsonErr \<Rightarrow> ErrorResponse (toAPIErrorCode d jsonErr)
     | Inr resultBuf \<Rightarrow> SuccessResponseJSON resultBuf)"
  unfolding writeSetConfigResponse_def nodeResults_of_fanout by simp

lemma writeSetConfigResponse_no_panic:
  "writeSetConfigResponse d peers (map f peers) status \<noteq> PanicIndexOutOfRange"
  by (simp add: writeSetConfigResponse_fanout split: sum.splits)

lemma first_error_not_nil:
  "filter (\<lambda>e. e \<noteq> None) errs = e # es \<Longrightarrow> e \<noteq> None"
proof -
  assume "filter (\<lambda>e. e \<noteq> None) errs = e # es"
  then have "e \<in> set (filter (\<lambda>e. e \<noteq> None) errs)" by simp
  then show ?thesis by simp
qed

lemma reduceWriteQuorumErrs_None_iff:
  "(reduceWriteQuorumErrs errs ignoredErrs quorum = None) = (quorum \<le> length (filter (\<lambda>e. e = None) errs))"
proof (cases "quorum \<le> length (filter (\<lambda>e. e = None) errs)")
  case True
  then show ?thesis by (simp add: reduceWriteQuorumErrs_def)
next
  case False
  show ?thesis
  proof (cases "filter (\<lambda>e. e \<noteq> None) errs")
    case Nil
    with False show ?thesis by (simp add: reduceWriteQuorumErrs_def)
  next
    case (Cons e es)
    from first_error_not_nil[OF Cons] Cons False show ?thesis
      by (simp add: reduceWriteQuorumErrs_def)
  qed
qed

section \<open>Facts about the concrete inputs\<close>

lemma peers5_simps:
  "length peers5 = 5" "map rpcHandle peers5 = [0, 1, 2, 3, 4]"
  by (simp_all add: peers5_def)

lemma heallistRequest_Get:
  "Get (url_query (heallistRequest bucket maxKey)) mgmtBucket = bucket"
  "Get (url_query (heallistRequest bucket maxKey)) mgmtMaxKey = maxKey"
  "Get (url_query (heallistRequest bucket maxKey)) mgmtPrefix = []"
  by (simp_all add: heallistRequest_def Get_def mgmtBucket_def mgmtMaxKey_def mgmtPrefix_def)

lemma lockRequest_Get:
  "Get (url_query (lockRequest bucket)) mgmtBucket = bucket"
  "Get (url_query (lockRequest bucket)) mgmtPrefix = []"
  "Get (url_query (lockRequest bucket)) mgmtLockDuration = []"
  "Get (url_query (lockRequestOlderThan bucket duration)) mgmtBucket = bucket"
  "Get (url_query (lockRequestOlderThan bucket duration)) mgmtPrefix = []"
  "Get (url_query (lockRequestOlderThan bucket duration)) mgmtLockDuration = duration"
  by (simp_all add: lockRequest_def lockRequestOlderThan_def Get_def mgmtBucket_def
        mgmtPrefix_def mgmtLockDuration_def)

section \<open>Set-config: the quorum threshold\<close>

text \<open>
  Claim C1.  Over \<open>N\<close> peers both quorum checks of the set-config handler are made with
  the threshold \<open>N div 2 + 1\<close>, and each succeeds if and only if at least that many of
  the \<open>N\<close> per-peer error slots are nil.  Consequently the peers are asked to commit iff
  the staging slots reach the threshold, the restart is sent iff both the staging and the
  commit slots reach it, and the status reported is the conjunction of the two.  (The
  request is one that reaches the protocol: the engine is initialised, the request is
  authenticated and its body was read.)
\<close>

theorem SetConfigHandler_quorum_threshold:
  fixes d :: "'a config_deps_scheme"
  defines "tmp \<equiv> minioConfigTmpFormat (mustGetUUID d)"
  assumes init: "newObjectLayerFn g = Some objectAPI"
    and auth: "checkRequestAuthType d r = ErrNone"
    and body: "read_body r = Inr configBytes"
  defines "N \<equiv> length (globalAdminPeers g)"
  defines "staged \<equiv> writeTmpConfigPeers d (globalAdminPeers g) tmp configBytes"
  defines "committed \<equiv> commitConfigPeers d (globalAdminPeers g) tmp"
  defines "stagingOK \<equiv> N div 2 + 1 \<le> length (filter (\<lambda>e. e = None) staged)"
  defines "commitOK \<equiv> N div 2 + 1 \<le> length (filter (\<lambda>e. e = None) committed)"
  shows "length staged = N \<and> length committed = N \<and>
         (reduceWriteQuorumErrs staged [] (N div 2 + 1) = None) = stagingOK \<and>
         (reduceWriteQuorumErrs committed [] (N div 2 + 1) = None) = commitOK \<and>
         (EvCommitConfigPeers tmp \<in> set (snd (SetConfigHandler d g r))) = stagingOK \<and>
         (EvSendServiceRestart \<in> set (snd (SetConfigHandler d g r))) = (stagingOK \<and> commitOK) \<and>
         fst (SetConfigHandler d g r) =
           writeSetConfigResponse d (globalAdminPeers g) (if stagingOK then committed else staged)
             (stagingOK \<and> commitOK)"
proof -
  have len: "length staged = N" "length committed = N"
    by (simp_all add: staged_def committed_def N_def writeTmpConfigPeers_def commitConfigPeers_def)
  have rs: "(reduceWriteQuorumErrs staged [] (N div 2 + 1) = None) = stagingOK"
    by (simp add: reduceWriteQuorumErrs_None_iff stagingOK_def)
  have rc: "(reduceWriteQuorumErrs committed [] (N div 2 + 1) = None) = commitOK"
    by (simp add: reduceWriteQuorumErrs_None_iff commitOK_def)
  have np: "writeSetConfigResponse d (globalAdminPeers g) committed True \<noteq> PanicIndexOutOfRange"
    by (simp add: committed_def commitConfigPeers_def writeSetConfigResponse_no_panic)
  have unfolded: "SetConfigHandler d g r =
      (if reduceWriteQuorumErrs staged [] (N div 2 + 1) \<noteq> None
       then (writeSetConfigResponse d (globalAdminPeers g) staged False,
             [EvWriteTmpConfigPeers tmp configBytes])
       else if reduceWriteQuorumErrs committed [] (N div 2 + 1) \<noteq> None
       then (writeSetConfigResponse d (globalAdminPeers g) committed False,
             [EvWriteTmpConfigPeers tmp configBytes, EvConfigLock,
              EvCommitConfigPeers tmp, EvConfigUnlock])
       else (writeSetConfigResponse d (globalAdminPeers g) committed True,
             [EvWriteTmpConfigPeers tmp configBytes, EvConfigLock,
              EvCommitConfigPeers tmp, EvSendServiceRestart, EvConfigUnlock]))"
    using init auth body np
    by (simp add: SetConfigHandler_def Let_def staged_def committed_def N_def tmp_def)
  have ev1: "(EvCommitConfigPeers tmp \<in> set (snd (SetConfigHandler d g r))) = stagingOK"
    unfolding unfolded using rs rc by (cases stagingOK; cases commitOK; simp)
  have ev2: "(EvSendServiceRestart \<in> set (snd (SetConfigHandler d g r))) = (stagingOK \<and> commitOK)"
    unfolding unfolded using rs rc by (cases stagingOK; cases commitOK; simp)
  have resp: "fst (SetConfigHandler d g r) =
           writeSetConfigResponse d (globalAdminPeers g) (if stagingOK then committed else staged)
             (stagingOK \<and> commitOK)"
    unfolding unfolded using rs rc by (cases stagingOK; cases commitOK; simp)
  from len rs rc ev1 ev2 resp show ?thesis by simp
qed

theorem SetConfigHandler_quorum_threshold_witness:
  "newObjectLayerFn globals5 = Some (ObjectLayer 1) \<and>
   checkRequestAuthType (cfgDeps 2 5) request0 = ErrNone \<and>
   read_body request0 = Inr ''{}'' \<and>
   EvCommitConfigPeers ''config-u1.json'' \<notin> set (snd (SetConfigHandler (cfgDeps 2 5) globals5 request0)) \<and>
   EvCommitConfigPeers ''config-u1.json'' \<in> set (snd (SetConfigHandler (cfgDeps 3 5) globals5 request0))"
proof -
  have h: "newObjectLayerFn globals5 = Some (ObjectLayer 1)" "read_body request0 = Inr ''{}''"
    "checkRequestAuthType (cfgDeps 2 5) request0 = ErrNone"
    "checkRequestAuthType (cfgDeps 3 5) request0 = ErrNone"
    by (simp_all add: newObjectLayerFn_def globals5_def request0_def cfgDeps_def)
  have p: "globalAdminPeers globals5 = peers5" by (simp add: globals5_def)
  have c2: "length (filter (\<lambda>e. e = None)
      (writeTmpConfigPeers (cfgDeps 2 5) peers5 ''config-u1.json'' ''{}'')) = 2"
    by (simp add: writeTmpConfigPeers_def cfgDeps_def peers5_def)
  have c3: "length (filter (\<lambda>e. e = None)
      (writeTmpConfigPeers (cfgDeps 3 5) peers5 ''config-u1.json'' ''{}'')) = 3"
    by (simp add: writeTmpConfigPeers_def cfgDeps_def peers5_def)
  have t: "minioConfigTmpFormat (mustGetUUID (cfgDeps 2 5)) = ''config-u1.json''"
     "minioConfigTmpFormat (mustGetUUID (cfgDeps 3 5)) = ''config-u1.json''"
    by (simp_all add: minioConfigTmpFormat_def cfgDeps_def)
  show ?thesis
    using SetConfigHandler_quorum_threshold[OF h(1) h(3) h(2)]
          SetConfigHandler_quorum_threshold[OF h(1) h(4) h(2)]
    by (simp add: h p c2 c3 t peers5_simps)
qed

section \<open>Set-config: a failed staging quorum\<close>

text \<open>
  Claim C2.  When the staging quorum check of a set-config request over \<open>N\<close> peers
  fails, the only effect of the handler is the staging fan-out: the config lock is not
  taken and no peer is asked to promote its staged file.  The result handed to the JSON
  encoder has status false and one entry per peer, in peer order, carrying the peer's
  address and \<open>errSet\<close> true exactly where the peer's staging write returned an error;
  the response is the encoder's output for it (the error response only if the encoder
  itself fails).
\<close>

theorem SetConfigHandler_staging_quorum_failure:
  fixes d :: "'a config_deps_scheme" and g :: globals and configBytes :: string
  defines "tmp \<equiv> minioConfigTmpFormat (mustGetUUID d)"
  defines "staged \<equiv> writeTmpConfigPeers d (globalAdminPeers g) tmp configBytes"
  defines "nodeResults \<equiv>
     map (\<lambda>peer. \<lparr>Name = addr peer, ErrSet = (WriteTmpConfig d peer tmp configBytes \<noteq> None),
                  ErrMsg = sprintf_v (WriteTmpConfig d peer tmp configBytes)\<rparr>) (globalAdminPeers g)"
  assumes init: "newObjectLayerFn g = Some objectAPI"
    and auth: "checkRequestAuthType d r = ErrNone"
    and body: "read_body r = Inr configBytes"
    and stagingFails:
      "reduceWriteQuorumErrs staged [] (length (globalAdminPeers g) div 2 + 1) \<noteq> None"
  shows "snd (SetConfigHandler d g r) = [EvWriteTmpConfigPeers tmp configBytes] \<and>
         EvConfigLock \<notin> set (snd (SetConfigHandler d g r)) \<and>
         (\<forall>name. EvCommitConfigPeers name \<notin> set (snd (SetConfigHandler d g r))) \<and>
         length nodeResults = length (globalAdminPeers g) \<and>
         map ErrSet nodeResults = map (\<lambda>err. err \<noteq> None) staged \<and>
         map Name nodeResults = map addr (globalAdminPeers g) \<and>
         fst (SetConfigHandler d g r) =
           (case jsonEncode d \<lparr>NodeResults = nodeResults, Status = False\<rparr> of
              Inl jsonErr \<Rightarrow> ErrorResponse (toAPIErrorCode d jsonErr)
            | Inr resultBuf \<Rightarrow> SuccessResponseJSON resultBuf)"
proof -
  have run: "SetConfigHandler d g r =
      (writeSetConfigResponse d (globalAdminPeers g) staged False,
       [EvWriteTmpConfigPeers tmp configBytes])"
    using init auth body stagingFails
    by (simp add: SetConfigHandler_def Let_def staged_def tmp_def)
  have resp: "writeSetConfigResponse d (globalAdminPeers g) staged False =
           (case jsonEncode d \<lparr>NodeResults = nodeResults, Status = False\<rparr> of
              Inl jsonErr \<Rightarrow> ErrorResponse (toAPIErrorCode d jsonErr)
            | Inr resultBuf \<Rightarrow> SuccessResponseJSON resultBuf)"
    unfolding staged_def writeTmpConfigPeers_def nodeResults_def
    by (rule writeSetConfigResponse_fanout)
  have flags: "map ErrSet nodeResults = map (\<lambda>err. err \<noteq> None) staged"
    "map Name nodeResults = map addr (globalAdminPeers g)"
    by (simp_all add: nodeResults_def staged_def writeTmpConfigPeers_def comp_def)
  have len: "length nodeResults = length (globalAdminPeers g)"
    by (simp add: nodeResults_def)
  from run resp flags len show ?thesis by simp
qed

theorem SetConfigHandler_staging_quorum_failure_witness:
  "newObjectLayerFn globals5 = Some (ObjectLayer 1) \<and>
   checkRequestAuthType (cfgDeps 2 5) request0 = ErrNone \<and>
   read_body request0 = Inr ''{}'' \<and>
   reduceWriteQuorumErrs
     (writeTmpConfigPeers (cfgDeps 2 5) (globalAdminPeers globals5) ''config-u1.json'' ''{}'') []
     (length (globalAdminPeers globals5) div 2 + 1) \<noteq> None \<and>
   SetConfigHandler (cfgDeps 2 5) globals5 request0 =
     (SuccessResponseJSON ''node0+node1+node2!node3!node4!F'',
      [EvWriteTmpConfigPeers ''config-u1.json'' ''{}''])"
proof -
  have h: "newObjectLayerFn globals5 = Some (ObjectLayer 1)"
    "checkRequestAuthType (cfgDeps 2 5) request0 = ErrNone"
    "read_body request0 = Inr ''{}''"
    by (simp_all add: newObjectLayerFn_def globals5_def request0_def cfgDeps_def)
  have t: "minioConfigTmpFormat (mustGetUUID (cfgDeps 2 5)) = ''config-u1.json''"
    by (simp add: minioConfigTmpFormat_def cfgDeps_def)
  have p: "globalAdminPeers globals5 = peers5" by (simp add: globals5_def)
  have st: "writeTmpConfigPeers (cfgDeps 2 5) peers5 ''config-u1.json'' ''{}'' =
      [None, None, Some ''timeout'', Some ''timeout'', Some ''timeout'']"
    by (simp add: writeTmpConfigPeers_def cfgDeps_def peers5_def)
  have q: "reduceWriteQuorumErrs
     (writeTmpConfigPeers (cfgDeps 2 5) (globalAdminPeers globals5)
        (minioConfigTmpFormat (mustGetUUID (cfgDeps 2 5))) ''{}'') []
     (length (globalAdminPeers globals5) div 2 + 1) \<noteq> None"
    by (simp add: t p st reduceWriteQuorumErrs_def peers5_simps)
  have enc: "jsonEncode (cfgDeps 2 5)
      \<lparr>NodeResults = map (\<lambda>peer. \<lparr>Name = addr peer,
           ErrSet = (WriteTmpConfig (cfgDeps 2 5) peer ''config-u1.json'' ''{}'' \<noteq> None),
           ErrMsg = sprintf_v (WriteTmpConfig (cfgDeps 2 5) peer ''config-u1.json'' ''{}'')\<rparr>) peers5,
        Status = False\<rparr> = Inr ''node0+node1+node2!node3!node4!F''"
    by (simp add: cfgDeps_def peers5_def)
  from SetConfigHandler_staging_quorum_failure[OF h q] h q enc
  show ?thesis by (simp add: t p prod_eq_iff)
qed

section \<open>Format heal: failures before the swap\<close>

text \<open>
  Claim C3.  A format-heal request without dry-run on an erasure-coded setup in which
  the reinitialisation of the storage handles, the format heal or the construction of
  the new engine fails is answered with that error; the globals, and so the engine
  handle, are unchanged, the handle is never written, no engine is shut down and the
  peers are not notified.  In every run of the handler an engine is shut down only if it
  was the current engine at the start and the handle was set to the new engine before.
\<close>

theorem HealFormatHandler_failure_before_swap:
  fixes d :: heal_deps
  assumes init: "newObjectLayerFn g = Some objectAPI"
    and auth: "checkRequestAuthType d r = ErrNone"
    and xl: "globalIsXL g"
    and real: "\<not> isDryRun (url_query r)"
    and failure:
      "initStorageDisks d = Inl err \<or>
       (\<exists>bootstrapDisks. initStorageDisks d = Inr bootstrapDisks \<and>
          (healFormatXL d bootstrapDisks = Some err \<or>
           (healFormatXL d bootstrapDisks = None \<and> newXLObjects d bootstrapDisks = Inl err)))"
  shows "fst (HealFormatHandler d g r) = ErrorResponse (toAPIErrorCode d err) \<and>
         snd (snd (HealFormatHandler d g r)) = g \<and>
         newObjectLayerFn (snd (snd (HealFormatHandler d g r))) = Some objectAPI \<and>
         (\<forall>ol. EvSetGlobalObjectAPI ol \<notin> set (fst (snd (HealFormatHandler d g r)))) \<and>
         (\<forall>ol. EvShutdown ol \<notin> set (fst (snd (HealFormatHandler d g r)))) \<and>
         EvReInitPeerDisks \<notin> set (fst (snd (HealFormatHandler d g r))) \<and>
         (\<forall>d' g' r' ol. EvShutdown ol \<in> set (fst (snd (HealFormatHandler d' g' r'))) \<longrightarrow>
            newObjectLayerFn g' = Some ol \<and>
            (\<exists>newObjectAPI.
               newObjectLayerFn (snd (snd (HealFormatHandler d' g' r'))) = Some newObjectAPI \<and>
               EvSetGlobalObjectAPI newObjectAPI \<in>
                 set (takeWhile (\<lambda>e. e \<noteq> EvShutdown ol) (fst (snd (HealFormatHandler d' g' r'))))))"
proof -
  have order: "newObjectLayerFn g' = Some ol \<and>
            (\<exists>newObjectAPI.
               newObjectLayerFn (snd (snd (HealFormatHandler d' g' r'))) = Some newObjectAPI \<and>
               EvSetGlobalObjectAPI newObjectAPI \<in>
                 set (takeWhile (\<lambda>e. e \<noteq> EvShutdown ol) (fst (snd (HealFormatHandler d' g' r')))))"
    if "EvShutdown ol \<in> set (fst (snd (HealFormatHandler d' g' r')))" for d' :: heal_deps and g' r' ol
    using that
    by (auto simp: HealFormatHandler_def Let_def newObjectLayerFn_def
          split: option.splits if_splits sum.splits)
  from failure have run:
    "fst (HealFormatHandler d g r) = ErrorResponse (toAPIErrorCode d err) \<and>
     snd (snd (HealFormatHandler d g r)) = g \<and>
     set (fst (snd (HealFormatHandler d g r))) \<subseteq>
       {EvInitStorageDisks} \<union> range EvHealFormatXL \<union> range EvNewXLObjects"
    using init auth xl real
    by (auto simp: HealFormatHandler_def Let_def)
  then have "\<forall>ol. EvSetGlobalObjectAPI ol \<notin> set (fst (snd (HealFormatHandler d g r)))"
    "\<forall>ol. EvShutdown ol \<notin> set (fst (snd (HealFormatHandler d g r)))"
    "EvReInitPeerDisks \<notin> set (fst (snd (HealFormatHandler d g r)))"
    by auto
  with run init order show ?thesis by simp
qed

theorem HealFormatHandler_failure_before_swap_witness:
  "newObjectLayerFn globals5 = Some (ObjectLayer 1) \<and>
   checkRequestAuthType (healDeps\<lparr>newXLObjects := \<lambda>_. Inl ''cannot build engine''\<rparr>) request0 = ErrNone \<and>
   globalIsXL globals5 \<and> \<not> isDryRun (url_query request0) \<and>
   initStorageDisks (healDeps\<lparr>newXLObjects := \<lambda>_. Inl ''cannot build engine''\<rparr>) = Inr (StorageDisks 7) \<and>
   healFormatXL (healDeps\<lparr>newXLObjects := \<lambda>_. Inl ''cannot build engine''\<rparr>) (StorageDisks 7) = None \<and>
   newXLObjects (healDeps\<lparr>newXLObjects := \<lambda>_. Inl ''cannot build engine''\<rparr>) (StorageDisks 7) =
     Inl ''cannot build engine'' \<and>
   fst (HealFormatHandler (healDeps\<lparr>newXLObjects := \<lambda>_. Inl ''cannot build engine''\<rparr>) globals5 request0) =
     ErrorResponse (ErrOtherCode 0) \<and>
   snd (snd (HealFormatHandler (healDeps\<lparr>newXLObjects := \<lambda>_. Inl ''cannot build engine''\<rparr>) globals5 request0)) =
     globals5 \<and>
   EvShutdown (ObjectLayer 1) \<notin>
     set (fst (snd (HealFormatHandler (healDeps\<lparr>newXLObjects := \<lambda>_. Inl ''cannot build engine''\<rparr>) globals5 request0)))"
proof -
  let ?d = "healDeps\<lparr>newXLObjects := \<lambda>_. Inl ''cannot build engine''\<rparr>"
  have h: "newObjectLayerFn globals5 = Some (ObjectLayer 1)"
    "checkRequestAuthType ?d request0 = ErrNone" "globalIsXL globals5"
    "\<not> isDryRun (url_query request0)"
    by (simp_all add: newObjectLayerFn_def globals5_def healDeps_def request0_def isDryRun_def)
  have f: "initStorageDisks ?d = Inr (StorageDisks 7)" "healFormatXL ?d (StorageDisks 7) = None"
    "newXLObjects ?d (StorageDisks 7) = Inl ''cannot build engine''"
    "toAPIErrorCode ?d ''cannot build engine'' = ErrOtherCode 0"
    by (simp_all add: healDeps_def)
  have "initStorageDisks ?d = Inl ''cannot build engine'' \<or>
       (\<exists>bootstrapDisks. initStorageDisks ?d = Inr bootstrapDisks \<and>
          (healFormatXL ?d bootstrapDisks = Some ''cannot build engine'' \<or>
           (healFormatXL ?d bootstrapDisks = None \<and>
            newXLObjects ?d bootstrapDisks = Inl ''cannot build engine'')))"
    using f by simp
  from HealFormatHandler_failure_before_swap[OF h this] h f show ?thesis by simp
qed

section \<open>Dry-run heals\<close>

lemma isDryRun_withoutDryRun: "\<not> isDryRun (url_query (withoutDryRun r))"
  by (simp add: withoutDryRun_def isDryRun_def)

lemma Get_withoutDryRun:
  "Get (url_query (withoutDryRun r)) mgmtBucket = Get (url_query r) mgmtBucket"
  "Get (url_query (withoutDryRun r)) mgmtObject = Get (url_query r) mgmtObject"
  by (simp_all add: withoutDryRun_def Get_def mgmtBucket_def mgmtObject_def mgmtDryRun_def)

lemma HealBucketHandler_dry_run:
  fixes d :: heal_deps
  assumes dry: "isDryRun (url_query r)"
  shows "snd (snd (HealBucketHandler d g r)) = g \<and>
     filter healMutation (fst (snd (HealBucketHandler d g r))) = [] \<and>
     (checkRequestAuthType d (withoutDryRun r) = checkRequestAuthType d r \<longrightarrow>
       (case fst (HealBucketHandler d g r) of
          ErrorResponse code \<Rightarrow> HealBucketHandler d g (withoutDryRun r) = HealBucketHandler d g r
        | _ \<Rightarrow> fst (HealBucketHandler d g r) = SuccessResponseHeadersOnly \<and>
            (\<exists>ev rest. healMutation ev \<and>
               fst (snd (HealBucketHandler d g (withoutDryRun r))) =
               fst (snd (HealBucketHandler d g r)) @ ev # rest)))"
  using dry isDryRun_withoutDryRun[of r]
  by (auto simp: HealBucketHandler_def Let_def Get_withoutDryRun split: option.splits)

lemma HealObjectHandler_dry_run:
  fixes d :: heal_deps
  assumes dry: "isDryRun (url_query r)"
  shows "snd (snd (HealObjectHandler d g r)) = g \<and>
     filter healMutation (fst (snd (HealObjectHandler d g r))) = [] \<and>
     (checkRequestAuthType d (withoutDryRun r) = checkRequestAuthType d r \<longrightarrow>
       (case fst (HealObjectHandler d g r) of
          ErrorResponse code \<Rightarrow> HealObjectHandler d g (withoutDryRun r) = HealObjectHandler d g r
        | _ \<Rightarrow> fst (HealObjectHandler d g r) = SuccessResponseHeadersOnly \<and>
            (\<exists>ev rest. healMutation ev \<and>
               fst (snd (HealObjectHandler d g (withoutDryRun r))) =
               fst (snd (HealObjectHandler d g r)) @ ev # rest)))"
  using dry isDryRun_withoutDryRun[of r]
  by (auto simp: HealObjectHandler_def Let_def Get_withoutDryRun split: option.splits)

lemma HealFormatHandler_dry_run:
  fixes d :: heal_deps
  assumes dry: "isDryRun (url_query r)"
  shows "snd (snd (HealFormatHandler d g r)) = g \<and>
     filter healMutation (fst (snd (HealFormatHandler d g r))) = [] \<and>
     (checkRequestAuthType d (withoutDryRun r) = checkRequestAuthType d r \<longrightarrow>
       (case fst (HealFormatHandler d g r) of
          ErrorResponse code \<Rightarrow> HealFormatHandler d g (withoutDryRun r) = HealFormatHandler d g r
        | _ \<Rightarrow> fst (HealFormatHandler d g r) = SuccessResponseHeadersOnly \<and>
            (\<exists>ev rest. healMutation ev \<and>
               fst (snd (HealFormatHandler d g (withoutDryRun r))) =
               fst (snd (HealFormatHandler d g r)) @ ev # rest)))"
  using dry isDryRun_withoutDryRun[of r]
  by (auto simp: HealFormatHandler_def Let_def split: option.splits sum.splits)

text \<open>
  Claim C4.  A bucket, object or format heal request that carries the dry-run key leaves
  the globals as they were and performs none of the changing effects: no heal call
  reaches the engine, no storage handles are reinitialised, no format heal runs and the
  engine handle is not swapped.  Its validation outcome is that of the same request
  without the key (authenticated alike): where the dry run answers with an error, the
  real run answers with the same error after the same effects; where the dry run
  succeeds, the real run performs the same validation effects and goes on to its first
  change.
\<close>

theorem heal_dry_run_validates_only:
  fixes d :: heal_deps
  assumes dry: "isDryRun (url_query r)"
  shows "\<forall>H \<in> {HealBucketHandler, HealObjectHandler, HealFormatHandler}.
     snd (snd (H d g r)) = g \<and>
     filter healMutation (fst (snd (H d g r))) = [] \<and>
     (checkRequestAuthType d (withoutDryRun r) = checkRequestAuthType d r \<longrightarrow>
       (case fst (H d g r) of
          ErrorResponse code \<Rightarrow> H d g (withoutDryRun r) = H d g r
        | _ \<Rightarrow> fst (H d g r) = SuccessResponseHeadersOnly \<and>
            (\<exists>ev rest. healMutation ev \<and>
               fst (snd (H d g (withoutDryRun r))) = fst (snd (H d g r)) @ ev # rest)))"
  using HealBucketHandler_dry_run[OF dry, of d g] HealObjectHandler_dry_run[OF dry, of d g]
    HealFormatHandler_dry_run[OF dry, of d g]
  by simp

theorem heal_dry_run_validates_only_witness:
  "isDryRun (url_query (healRequest True)) \<and>
   checkRequestAuthType healDeps (withoutDryRun (healRequest True)) =
     checkRequestAuthType healDeps (healRequest True) \<and>
   snd (snd (HealBucketHandler healDeps globals5 (healRequest True))) = globals5 \<and>
   filter healMutation (fst (snd (HealBucketHandler healDeps globals5 (healRequest True)))) = [] \<and>
   filter healMutation (fst (snd (HealObjectHandler healDeps globals5 (healRequest True)))) = [] \<and>
   filter healMutation (fst (snd (HealFormatHandler healDeps globals5 (healRequest True)))) = []"
proof -
  have dry: "isDryRun (url_query (healRequest True))"
    by (simp add: isDryRun_def healRequest_def mgmtDryRun_def)
  have auth: "checkRequestAuthType healDeps (withoutDryRun (healRequest True)) =
     checkRequestAuthType healDeps (healRequest True)"
    by (simp add: healDeps_def)
  from heal_dry_run_validates_only[OF dry, of healDeps globals5] dry auth
  show ?thesis by simp
qed

section \<open>Object heal: the lookup comes first\<close>

text \<open>
  Claim C5.  When the lookup of the object (GetObjectInfo) fails, the object-heal handler
  never calls the engine's HealObject, and a request that reached the lookup is answered
  with the lookup's error.  In every run, a HealObject call is preceded by the lookup of
  the same object, and that lookup succeeded.
\<close>

theorem HealObjectHandler_lookup_before_heal:
  fixes d :: heal_deps and r :: request
  defines "bucket \<equiv> Get (url_query r) mgmtBucket"
  defines "object \<equiv> Get (url_query r) mgmtObject"
  shows
   "(newObjectLayerFn g = Some objLayer \<and> GetObjectInfo d objLayer bucket object = Some err \<longrightarrow>
       (\<forall>ol b ob. EvHealObject ol b ob \<notin> set (fst (snd (HealObjectHandler d g r)))) \<and>
       (checkRequestAuthType d r = ErrNone \<and> checkBucketAndObjectNames d bucket object = None \<longrightarrow>
          HealObjectHandler d g r =
            (ErrorResponse (toAPIErrorCode d err), [EvGetObjectInfo objLayer bucket object], g))) \<and>
    (\<forall>ol b ob. EvHealObject ol b ob \<in> set (fst (snd (HealObjectHandler d g r))) \<longrightarrow>
       GetObjectInfo d ol b ob = None \<and>
       EvGetObjectInfo ol b ob \<in>
         set (takeWhile (\<lambda>e. e \<noteq> EvHealObject ol b ob) (fst (snd (HealObjectHandler d g r)))))"
  unfolding bucket_def object_def
  by (auto simp: HealObjectHandler_def Let_def split: option.splits if_splits)

theorem HealObjectHandler_lookup_before_heal_witness:
  "newObjectLayerFn globals5 = Some (ObjectLayer 1) \<and>
   GetObjectInfo (healDeps\<lparr>GetObjectInfo := \<lambda>_ _ _. Some ''object not found''\<rparr>) (ObjectLayer 1) ''photos'' ''a.jpg'' = Some ''object not found'' \<and>
   HealObjectHandler (healDeps\<lparr>GetObjectInfo := \<lambda>_ _ _. Some ''object not found''\<rparr>) globals5 (healRequest False) =
     (ErrorResponse (ErrOtherCode 0), [EvGetObjectInfo (ObjectLayer 1) ''photos'' ''a.jpg''], globals5) \<and>
   EvHealObject (ObjectLayer 1) ''photos'' ''a.jpg'' \<in> set (fst (snd (HealObjectHandler healDeps globals5 (healRequest False)))) \<and>
   GetObjectInfo healDeps (ObjectLayer 1) ''photos'' ''a.jpg'' = None"
proof -
  have q: "Get (url_query (healRequest False)) mgmtBucket = ''photos''"
          "Get (url_query (healRequest False)) mgmtObject = ''a.jpg''"
    by (simp_all add: healRequest_def Get_def mgmtBucket_def mgmtObject_def)
  have ev: "EvHealObject (ObjectLayer 1) ''photos'' ''a.jpg'' \<in> set (fst (snd (HealObjectHandler healDeps globals5 (healRequest False))))"
    by (simp add: HealObjectHandler_def Let_def healDeps_def globals5_def newObjectLayerFn_def
          isDryRun_def healRequest_def Get_def mgmtDryRun_def mgmtBucket_def mgmtObject_def)
  show ?thesis
    using HealObjectHandler_lookup_before_heal[where g = globals5 and objLayer = "ObjectLayer 1"
        and d = "healDeps\<lparr>GetObjectInfo := \<lambda>_ _ _. Some ''object not found''\<rparr>"
        and r = "healRequest False" and err = "''object not found''"]
      HealObjectHandler_lookup_before_heal[where g = globals5 and d = healDeps and r = "healRequest False"] ev
    by (simp add: q healDeps_def globals5_def newObjectLayerFn_def)
qed

section \<open>The dry-run flag\<close>

text \<open>
  Claim C10.  isDryRun is true exactly when the query has the key \<open>dry-run\<close>: whatever
  values the key carries (\<open>dry-run=false\<close> included) the request is a dry run, and
  without the key it is a real run.
\<close>

theorem isDryRun_key_presence:
  "isDryRun qval = (mgmtDryRun \<in> dom qval) \<and>
   isDryRun (qval(''dry-run'' \<mapsto> values)) \<and>
   isDryRun (qval(''dry-run'' \<mapsto> [''false''])) \<and>
   \<not> isDryRun (qval(''dry-run'' := None))"
  by (auto simp: isDryRun_def mgmtDryRun_def split: option.splits)

section \<open>Clearing locks releases what listing returns\<close>

lemma lock_handlers_validation_failure:
  fixes d :: "'a lock_deps_scheme"
  assumes "checkRequestAuthType d r = ErrNone"
    and "validateLockQueryParams d (url_query r) = ((bucket, prefix, duration, code), logs)"
    and "code \<noteq> ErrNone"
  shows "ListLocksHandler d g r = (ErrorResponse code, logs)"
    and "ClearLocksHandler d g r = (ErrorResponse code, logs)"
  using assms by (simp_all add: ListLocksHandler_def ClearLocksHandler_def)

text \<open>
  Claim C6.  For the same collaborators, globals and request (the same instant and the
  same bucket, prefix and duration), clear-locks answers exactly as list-locks does.
  Where list-locks succeeds, both made the same listing call to the peers, the body of
  both is the encoding of the records \<open>volLocks\<close> that call returned, and clear-locks
  has, after the listing, force-released the bucket and object of each record of
  \<open>volLocks\<close>, in order, and nothing else.  Where list-locks fails, clear-locks fails
  alike and releases nothing.
\<close>

theorem ClearLocksHandler_releases_listed:
  fixes d :: "'a lock_deps_scheme"
  shows "fst (ClearLocksHandler d g r) = fst (ListLocksHandler d g r) \<and>
    (case fst (ListLocksHandler d g r) of
       SuccessResponseJSON jsonBytes \<Rightarrow>
         (\<exists>bucket prefix duration logs volLocks.
            validateLockQueryParams d (url_query r) = ((bucket, prefix, duration, ErrNone), logs) \<and>
            listPeerLocksInfo d (globalAdminPeers g) bucket prefix duration = Inr volLocks \<and>
            jsonMarshal d volLocks = Inr jsonBytes \<and>
            snd (ListLocksHandler d g r) = logs @ [EvListPeerLocksInfo bucket prefix duration] \<and>
            snd (ClearLocksHandler d g r) =
              snd (ListLocksHandler d g r) @
              map (\<lambda>volLock. EvForceUnlock (Bucket volLock) (Object volLock)) volLocks)
     | _ \<Rightarrow> snd (ClearLocksHandler d g r) = snd (ListLocksHandler d g r) \<and>
           filter isForceUnlock (snd (ClearLocksHandler d g r)) = [])"
proof (cases "checkRequestAuthType d r = ErrNone")
  case False
  then show ?thesis by (simp add: ListLocksHandler_def ClearLocksHandler_def)
next
  case auth: True
  obtain bucket prefix duration code logs where
    v: "validateLockQueryParams d (url_query r) = ((bucket, prefix, duration, code), logs)"
    by (metis prod.exhaust)
  have logs: "filter isForceUnlock logs = []"
    using v by (auto simp: validateLockQueryParams_def Let_def errorIf_def split: if_splits sum.splits)
  show ?thesis
  proof (cases "code = ErrNone")
    case False
    with auth v logs show ?thesis
      by (simp add: lock_handlers_validation_failure)
  next
    case True
    with auth v logs show ?thesis
      by (auto simp: ListLocksHandler_def ClearLocksHandler_def errorIf_def split: sum.splits)
  qed
qed

theorem ClearLocksHandler_releases_listed_witness:
  "ListLocksHandler lockDeps globals5 (lockRequest ''photos'') =
     (SuccessResponseJSON ''photos/a.jpg;photos/b.jpg;'', [EvListPeerLocksInfo ''photos'' [] 0]) \<and>
   ClearLocksHandler lockDeps globals5 (lockRequest ''photos'') =
     (SuccessResponseJSON ''photos/a.jpg;photos/b.jpg;'',
      [EvListPeerLocksInfo ''photos'' [] 0, EvForceUnlock ''photos'' ''a.jpg'',
       EvForceUnlock ''photos'' ''b.jpg''])"
proof -
  have l: "ListLocksHandler lockDeps globals5 (lockRequest ''photos'') =
     (SuccessResponseJSON ''photos/a.jpg;photos/b.jpg;'', [EvListPeerLocksInfo ''photos'' [] 0])"
    by (simp add: ListLocksHandler_def validateLockQueryParams_def lockDeps_def lockRequest_def
          Get_def mgmtBucket_def mgmtPrefix_def mgmtLockDuration_def IsValidBucketName_def
          IsValidObjectPrefix_def Let_def)
  have v: "validateLockQueryParams lockDeps (url_query (lockRequest ''photos'')) =
      ((''photos'', [], 0, ErrNone), [])"
    by (simp add: validateLockQueryParams_def lockDeps_def lockRequest_def
          Get_def mgmtBucket_def mgmtPrefix_def mgmtLockDuration_def IsValidBucketName_def
          IsValidObjectPrefix_def Let_def)
  have ls: "listPeerLocksInfo lockDeps (globalAdminPeers globals5) ''photos'' [] 0 =
      Inr [\<lparr>Bucket = ''photos'', Object = ''a.jpg'', lockID = ''op1'', heldSince = 10,
               lockSource = ''node0''\<rparr>,
             \<lparr>Bucket = ''photos'', Object = ''b.jpg'', lockID = ''op2'', heldSince = 20,
               lockSource = ''node3''\<rparr>]"
    by (simp add: lockDeps_def)
  from ClearLocksHandler_releases_listed[of lockDeps globals5 "lockRequest ''photos''"] l v ls
  show ?thesis by (auto simp: prod_eq_iff)
qed

section \<open>Validation of the bucket, prefix and duration filter\<close>

lemma validateLockQueryParams_invalid_bucket:
  fixes d :: "'a lock_deps_scheme"
  shows "\<not> IsValidBucketName d (Get vars mgmtBucket) \<Longrightarrow>
    validateLockQueryParams d vars = (([], [], 0, ErrInvalidBucketName), [])"
  by (simp add: validateLockQueryParams_def Let_def)

lemma validateHealQueryParams_invalid_bucket:
  fixes d :: "'a heallist_deps_scheme"
  shows "\<not> IsValidBucketName d (Get vars mgmtBucket) \<Longrightarrow>
    validateHealQueryParams d vars = ([], [], [], [], 0, ErrInvalidBucketName)"
  by (simp add: validateHealQueryParams_def Let_def)

lemma validateLockQueryParams_default_duration:
  fixes d :: "'a lock_deps_scheme"
  assumes "Get vars mgmtLockDuration = []"
  shows "validateLockQueryParams d vars =
         validateLockQueryParams d (vars(mgmtLockDuration \<mapsto> [''0s'']))"
proof -
  have "Get (vars(mgmtLockDuration \<mapsto> [''0s''])) mgmtBucket = Get vars mgmtBucket"
    "Get (vars(mgmtLockDuration \<mapsto> [''0s''])) mgmtPrefix = Get vars mgmtPrefix"
    "Get (vars(mgmtLockDuration \<mapsto> [''0s''])) mgmtLockDuration = ''0s''"
    by (simp_all add: Get_def mgmtBucket_def mgmtPrefix_def mgmtLockDuration_def)
  with assms show ?thesis by (simp add: validateLockQueryParams_def Let_def)
qed

lemma lock_handlers_invalid_bucket:
  fixes d :: "'a lock_deps_scheme"
  assumes "\<not> IsValidBucketName d (Get (url_query r) mgmtBucket)"
  shows "snd (ListLocksHandler d g r) = [] \<and> snd (ClearLocksHandler d g r) = [] \<and>
     (checkRequestAuthType d r = ErrNone \<longrightarrow>
        fst (ListLocksHandler d g r) = ErrorResponse ErrInvalidBucketName \<and>
        fst (ClearLocksHandler d g r) = ErrorResponse ErrInvalidBucketName)"
  using validateLockQueryParams_invalid_bucket[OF assms]
  by (simp add: ListLocksHandler_def ClearLocksHandler_def Let_def)

lemma ListObjectsHealHandler_invalid_bucket:
  fixes d :: "'a heallist_deps_scheme"
  assumes "\<not> IsValidBucketName d (Get (url_query r) mgmtBucket)"
  shows "snd (ListObjectsHealHandler d g r) = [] \<and>
     (newObjectLayerFn g \<noteq> None \<and> checkRequestAuthType d r = ErrNone \<longrightarrow>
        fst (ListObjectsHealHandler d g r) = ErrorResponse ErrInvalidBucketName)"
  using validateHealQueryParams_invalid_bucket[OF assms]
  by (auto simp: ListObjectsHealHandler_def Let_def split: option.splits)

lemma lock_handlers_duration:
  fixes d :: "'a lock_deps_scheme"
  assumes auth: "checkRequestAuthType d r = ErrNone"
    and bucket: "IsValidBucketName d (Get (url_query r) mgmtBucket)"
    and prefix: "IsValidObjectPrefix d (Get (url_query r) mgmtPrefix)"
  shows "(Get (url_query r) mgmtLockDuration = [] \<and> ParseDuration d ''0s'' = Inr 0 \<longrightarrow>
           EvListPeerLocksInfo (Get (url_query r) mgmtBucket) (Get (url_query r) mgmtPrefix) 0
             \<in> set (snd (ListLocksHandler d g r)) \<inter> set (snd (ClearLocksHandler d g r))) \<and>
         (Get (url_query r) mgmtLockDuration \<noteq> [] \<and>
          ParseDuration d (Get (url_query r) mgmtLockDuration) = Inl err \<longrightarrow>
           ListLocksHandler d g r =
             (ErrorResponse ErrInvalidDuration,
              [EvErrorIf err ''Failed to parse duration passed as query value.'']) \<and>
           ClearLocksHandler d g r = ListLocksHandler d g r)"
  using auth bucket prefix
  by (auto simp: ListLocksHandler_def ClearLocksHandler_def validateLockQueryParams_def
        errorIf_def Let_def split: sum.splits)

text \<open>
  Claim C7.  The empty string is not a valid bucket name and is a valid prefix.  A
  list-locks, clear-locks or list-objects-heal request whose bucket name is invalid
  performs no effect at all, so neither a peer nor the storage engine is contacted; once
  authenticated (and, for list-objects-heal, with the engine initialised) it is answered
  with the invalid-bucket-name error.  For the lock handlers a duration parameter that is
  absent or empty is validated exactly as \<open>0s\<close> is, and the peers are then asked for the
  locks held for at least the zero duration; a duration that does not parse is answered
  with the invalid-duration error, the parse error is logged and no peer is contacted.
\<close>

theorem filter_validation:
  fixes dl :: "'a lock_deps_scheme" and dh :: "'b heallist_deps_scheme"
  shows
   "\<not> IsValidBucketName dl [] \<and> \<not> IsValidBucketName dh [] \<and>
    IsValidObjectPrefix dl [] \<and> IsValidObjectPrefix dh [] \<and>
    (\<not> IsValidBucketName dl (Get (url_query r) mgmtBucket) \<longrightarrow>
       snd (ListLocksHandler dl g r) = [] \<and> snd (ClearLocksHandler dl g r) = [] \<and>
       (checkRequestAuthType dl r = ErrNone \<longrightarrow>
          fst (ListLocksHandler dl g r) = ErrorResponse ErrInvalidBucketName \<and>
          fst (ClearLocksHandler dl g r) = ErrorResponse ErrInvalidBucketName)) \<and>
    (\<not> IsValidBucketName dh (Get (url_query r) mgmtBucket) \<longrightarrow>
       snd (ListObjectsHealHandler dh g r) = [] \<and>
       (newObjectLayerFn g \<noteq> None \<and> checkRequestAuthType dh r = ErrNone \<longrightarrow>
          fst (ListObjectsHealHandler dh g r) = ErrorResponse ErrInvalidBucketName)) \<and>
    (Get (url_query r) mgmtLockDuration = [] \<longrightarrow>
       validateLockQueryParams dl (url_query r) =
       validateLockQueryParams dl ((url_query r)(mgmtLockDuration \<mapsto> [''0s'']))) \<and>
    (checkRequestAuthType dl r = ErrNone \<and>
     IsValidBucketName dl (Get (url_query r) mgmtBucket) \<and>
     IsValidObjectPrefix dl (Get (url_query r) mgmtPrefix) \<longrightarrow>
       (Get (url_query r) mgmtLockDuration = [] \<and> ParseDuration dl ''0s'' = Inr 0 \<longrightarrow>
          EvListPeerLocksInfo (Get (url_query r) mgmtBucket) (Get (url_query r) mgmtPrefix) 0
            \<in> set (snd (ListLocksHandler dl g r)) \<inter> set (snd (ClearLocksHandler dl g r))) \<and>
       (Get (url_query r) mgmtLockDuration \<noteq> [] \<and>
        ParseDuration dl (Get (url_query r) mgmtLockDuration) = Inl err \<longrightarrow>
          ListLocksHandler dl g r =
            (ErrorResponse ErrInvalidDuration,
             [EvErrorIf err ''Failed to parse duration passed as query value.'']) \<and>
          ClearLocksHandler dl g r = ListLocksHandler dl g r))"
proof -
  have names: "\<not> IsValidBucketName dl []" "\<not> IsValidBucketName dh []"
    "IsValidObjectPrefix dl []" "IsValidObjectPrefix dh []"
    by (simp_all add: IsValidBucketName_def IsValidObjectPrefix_def)
  note lock_handlers_invalid_bucket[of dl r g] ListObjectsHealHandler_invalid_bucket[of dh r g]
    validateLockQueryParams_default_duration[of "url_query r" dl]
    lock_handlers_duration[of dl r g err]
  with names show ?thesis by blast
qed

theorem filter_validation_witness:
  "\<not> IsValidBucketName lockDeps (Get (url_query (lockRequest [])) mgmtBucket) \<and>
   checkRequestAuthType lockDeps (lockRequest []) = ErrNone \<and>
   ListLocksHandler lockDeps globals5 (lockRequest []) = (ErrorResponse ErrInvalidBucketName, []) \<and>
   ClearLocksHandler lockDeps globals5 (lockRequest []) = (ErrorResponse ErrInvalidBucketName, []) \<and>
   \<not> IsValidBucketName heallistDeps (Get (url_query (heallistRequest ''ab'' ''10'')) mgmtBucket) \<and>
   newObjectLayerFn globals5 \<noteq> None \<and>
   ListObjectsHealHandler heallistDeps globals5 (heallistRequest ''ab'' ''10'') =
     (ErrorResponse ErrInvalidBucketName, []) \<and>
   IsValidBucketName lockDeps ''photos'' \<and>
   Get (url_query (lockRequest ''photos'')) mgmtLockDuration = [] \<and>
   ParseDuration lockDeps ''0s'' = Inr 0 \<and>
   EvListPeerLocksInfo ''photos'' [] 0 \<in>
     set (snd (ClearLocksHandler lockDeps globals5 (lockRequest ''photos''))) \<and>
   ParseDuration lockDeps ''soon'' = Inl ''time: invalid duration'' \<and>
   ClearLocksHandler lockDeps globals5 (lockRequestOlderThan ''photos'' ''soon'') =
     (ErrorResponse ErrInvalidDuration,
      [EvErrorIf ''time: invalid duration'' ''Failed to parse duration passed as query value.''])"
proof -
  have names: "\<not> IsValidBucketName lockDeps []" "\<not> IsValidBucketName heallistDeps ''ab''"
    "IsValidBucketName lockDeps ''photos''" "IsValidObjectPrefix lockDeps []"
    by (simp_all add: IsValidBucketName_def IsValidObjectPrefix_def lockDeps_def heallistDeps_def)
  have auth: "checkRequestAuthType lockDeps r = ErrNone"
    "checkRequestAuthType heallistDeps r = ErrNone" for r
    by (simp_all add: lockDeps_def heallistDeps_def)
  have init: "newObjectLayerFn globals5 \<noteq> None"
    by (simp add: newObjectLayerFn_def globals5_def)
  have parse: "ParseDuration lockDeps ''0s'' = Inr 0"
    "ParseDuration lockDeps ''soon'' = Inl ''time: invalid duration''"
    by (simp_all add: lockDeps_def)
  from filter_validation[where dl = lockDeps and dh = heallistDeps and g = globals5
        and r = "lockRequest []"]
  have a: "ListLocksHandler lockDeps globals5 (lockRequest []) =
             (ErrorResponse ErrInvalidBucketName, []) \<and>
           ClearLocksHandler lockDeps globals5 (lockRequest []) =
             (ErrorResponse ErrInvalidBucketName, [])"
    using names auth by (simp add: lockRequest_Get prod_eq_iff)
  from filter_validation[where dl = lockDeps and dh = heallistDeps and g = globals5
        and r = "heallistRequest ''ab'' ''10''"]
  have b: "ListObjectsHealHandler heallistDeps globals5 (heallistRequest ''ab'' ''10'') =
     (ErrorResponse ErrInvalidBucketName, [])"
    using names auth init by (simp add: heallistRequest_Get prod_eq_iff)
  from filter_validation[where dl = lockDeps and dh = heallistDeps and g = globals5
        and r = "lockRequest ''photos''"]
  have c: "EvListPeerLocksInfo ''photos'' [] 0 \<in>
     set (snd (ClearLocksHandler lockDeps globals5 (lockRequest ''photos'')))"
    using names auth parse by (simp add: lockRequest_Get)
  from filter_validation[where dl = lockDeps and dh = heallistDeps and g = globals5
        and r = "lockRequestOlderThan ''photos'' ''soon''" and err = "''time: invalid duration''"]
  have d: "ClearLocksHandler lockDeps globals5 (lockRequestOlderThan ''photos'' ''soon'') =
     (ErrorResponse ErrInvalidDuration,
      [EvErrorIf ''time: invalid duration'' ''Failed to parse duration passed as query value.''])"
    using names auth parse by (simp add: lockRequest_Get)
  from a b c d names auth init parse show ?thesis
    by (simp add: lockRequest_Get heallistRequest_Get)
qed

section \<open>A max-key that is not a non-negative integer\<close>

text \<open>
  Claim C8.  When the max-key value of a list-objects-heal request does not parse as an
  integer, or parses as a negative one, the handler returns an error response without
  any effect: the storage engine is not contacted (and the model, total, has no panic
  on this path).  For a request that passes the checks made before max-key is read (the
  engine is initialised, the request is authenticated, bucket and prefix are valid) the
  error is the invalid-max-keys error.
\<close>

theorem ListObjectsHealHandler_bad_max_key:
  fixes d :: "'a heallist_deps_scheme" and r :: request
  defines "maxKeyStr \<equiv> Get (url_query r) mgmtMaxKey"
  assumes bad: "(\<exists>err. Atoi d maxKeyStr = Inl err) \<or> (\<exists>n. Atoi d maxKeyStr = Inr n \<and> n < 0)"
  shows "snd (ListObjectsHealHandler d g r) = [] \<and>
         (\<exists>code. code \<noteq> ErrNone \<and> fst (ListObjectsHealHandler d g r) = ErrorResponse code) \<and>
         (newObjectLayerFn g \<noteq> None \<and> checkRequestAuthType d r = ErrNone \<and>
          IsValidBucketName d (Get (url_query r) mgmtBucket) \<and>
          IsValidObjectPrefix d (Get (url_query r) mgmtPrefix) \<longrightarrow>
            ListObjectsHealHandler d g r = (ErrorResponse ErrInvalidMaxKeys, []))"
proof -
  have v: "snd (snd (snd (snd (snd (validateHealQueryParams d (url_query r)))))) \<noteq> ErrNone \<and>
    (IsValidBucketName d (Get (url_query r) mgmtBucket) \<and>
     IsValidObjectPrefix d (Get (url_query r) mgmtPrefix) \<longrightarrow>
       validateHealQueryParams d (url_query r) = ([], [], [], [], 0, ErrInvalidMaxKeys))"
    using bad unfolding maxKeyStr_def
    by (auto simp: validateHealQueryParams_def validateListObjectsArgs_def Let_def)
  obtain bucket prefix marker delimiter maxKey code where
    e: "validateHealQueryParams d (url_query r) = (bucket, prefix, marker, delimiter, maxKey, code)"
    by (metis prod.exhaust)
  with v have c: "code \<noteq> ErrNone" by simp
  from v e c show ?thesis
    by (auto simp: ListObjectsHealHandler_def Let_def split: option.splits)
qed

theorem ListObjectsHealHandler_bad_max_key_witness:
  "Atoi heallistDeps (Get (url_query (heallistRequest ''photos'' ''abc'')) mgmtMaxKey) =
     Inl ''invalid syntax'' \<and>
   Atoi heallistDeps (Get (url_query (heallistRequest ''photos'' ''-5'')) mgmtMaxKey) = Inr (- 5) \<and>
   newObjectLayerFn globals5 \<noteq> None \<and>
   IsValidBucketName heallistDeps ''photos'' \<and> IsValidObjectPrefix heallistDeps [] \<and>
   ListObjectsHealHandler heallistDeps globals5 (heallistRequest ''photos'' ''abc'') =
     (ErrorResponse ErrInvalidMaxKeys, []) \<and>
   ListObjectsHealHandler heallistDeps globals5 (heallistRequest ''photos'' ''-5'') =
     (ErrorResponse ErrInvalidMaxKeys, [])"
proof -
  have a: "Atoi heallistDeps (Get (url_query (heallistRequest ''photos'' ''abc'')) mgmtMaxKey) =
     Inl ''invalid syntax''"
    by (simp add: heallistRequest_Get heallistDeps_def decimalAtoi_def)
  have b: "Atoi heallistDeps (Get (url_query (heallistRequest ''photos'' ''-5'')) mgmtMaxKey) =
     Inr (- 5)"
    by (simp add: heallistRequest_Get heallistDeps_def decimalAtoi_def)
  have c: "newObjectLayerFn globals5 \<noteq> None" "IsValidBucketName heallistDeps ''photos''"
    "IsValidObjectPrefix heallistDeps []"
    "checkRequestAuthType heallistDeps (heallistRequest ''photos'' ''abc'') = ErrNone"
    "checkRequestAuthType heallistDeps (heallistRequest ''photos'' ''-5'') = ErrNone"
    by (simp_all add: newObjectLayerFn_def globals5_def IsValidBucketName_def
          IsValidObjectPrefix_def heallistDeps_def)
  from a have a': "(\<exists>err. Atoi heallistDeps
        (Get (url_query (heallistRequest ''photos'' ''abc'')) mgmtMaxKey) = Inl err) \<or>
      (\<exists>n. Atoi heallistDeps
        (Get (url_query (heallistRequest ''photos'' ''abc'')) mgmtMaxKey) = Inr n \<and> n < 0)"
    by simp
  from b have b': "(\<exists>err. Atoi heallistDeps
        (Get (url_query (heallistRequest ''photos'' ''-5'')) mgmtMaxKey) = Inl err) \<or>
      (\<exists>n. Atoi heallistDeps
        (Get (url_query (heallistRequest ''photos'' ''-5'')) mgmtMaxKey) = Inr n \<and> n < 0)"
    by simp
  from ListObjectsHealHandler_bad_max_key[OF a', of globals5]
       ListObjectsHealHandler_bad_max_key[OF b', of globals5] a b c
  show ?thesis by (simp add: heallistRequest_Get)
qed

section \<open>Set-credentials: peer failures do not fail the request\<close>

text \<open>
  Claim C9.  A set-credentials request that is authenticated, whose credentials are not
  pinned by the environment, whose body parses into keys that validate, and whose local
  configuration save succeeds is answered with 200 OK whatever the peers answered to the
  credential update: the per-peer errors appear in the trace only as lines of the error
  log, between the fan-out and the local update, and no quorum is evaluated over them.
\<close>

theorem ServiceCredentialsHandler_ignores_peer_failures:
  fixes d :: "'a creds_deps_scheme"
  defines "run peerErrs \<equiv> ServiceCredentialsHandler (d\<lparr>updateCredsOnPeers := \<lambda>_. peerErrs\<rparr>)"
  assumes auth: "checkRequestAuthType d r = ErrNone"
    and notPinned: "\<not> globalIsEnvCreds g"
    and body: "read_body r = Inr inputData"
    and parsed: "xmlUnmarshal d inputData = Inr req"
    and valid: "validateAuthKeys d (Username req) (Password req) = None"
    and saved: "serverConfigSave d \<lparr>AccessKey = Username req, SecretKey = Password req\<rparr> = None"
  shows "fst (ServiceCredentialsHandler d g r) = StatusOK \<and>
         (\<forall>peerErrs.
            fst (run peerErrs g r) = StatusOK \<and>
            snd (run peerErrs g r) =
              [EvUpdateCredsOnPeers (Username req) (Password req)] @
              concat (map (\<lambda>(peer, err).
                 errorIf err (''Unable to update credentials on peer '' @ peer @ ''.'')) peerErrs) @
              [EvSetCredential (Username req) (Password req), EvConfigSave])"
  using auth notPinned body parsed valid saved
  by (simp add: run_def ServiceCredentialsHandler_def Let_def)

theorem ServiceCredentialsHandler_ignores_peer_failures_witness:
  "checkRequestAuthType (credsDeps []) credsRequest = ErrNone \<and>
   \<not> globalIsEnvCreds globals5 \<and>
   read_body credsRequest = Inr ''<setCredsReq><username>admin</username><password>s3cr3tpass</password></setCredsReq>'' \<and>
   xmlUnmarshal (credsDeps []) ''<setCredsReq><username>admin</username><password>s3cr3tpass</password></setCredsReq>'' =
     Inr \<lparr>Username = ''admin'', Password = ''s3cr3tpass''\<rparr> \<and>
   validateAuthKeys (credsDeps []) ''admin'' ''s3cr3tpass'' = None \<and>
   serverConfigSave (credsDeps []) \<lparr>AccessKey = ''admin'', SecretKey = ''s3cr3tpass''\<rparr> = None \<and>
   ServiceCredentialsHandler
     (credsDeps [(''node1'', Some ''timeout''), (''node2'', Some ''timeout''),
                 (''node3'', Some ''refused''), (''node4'', Some ''refused'')])
     globals5 credsRequest =
   (StatusOK,
    [EvUpdateCredsOnPeers ''admin'' ''s3cr3tpass'',
     EvErrorIf ''timeout'' ''Unable to update credentials on peer node1.'',
     EvErrorIf ''timeout'' ''Unable to update credentials on peer node2.'',
     EvErrorIf ''refused'' ''Unable to update credentials on peer node3.'',
     EvErrorIf ''refused'' ''Unable to update credentials on peer node4.'',
     EvSetCredential ''admin'' ''s3cr3tpass'', EvConfigSave])"
proof -
  have h: "checkRequestAuthType (credsDeps []) credsRequest = ErrNone"
    "\<not> globalIsEnvCreds globals5"
    "read_body credsRequest = Inr ''<setCredsReq><username>admin</username><password>s3cr3tpass</password></setCredsReq>''"
    "xmlUnmarshal (credsDeps []) ''<setCredsReq><username>admin</username><password>s3cr3tpass</password></setCredsReq>'' =
       Inr \<lparr>Username = ''admin'', Password = ''s3cr3tpass''\<rparr>"
    by (simp_all add: credsDeps_def globals5_def credsRequest_def)
  have k: "validateAuthKeys (credsDeps []) (Username \<lparr>Username = ''admin'', Password = ''s3cr3tpass''\<rparr>)
        (Password \<lparr>Username = ''admin'', Password = ''s3cr3tpass''\<rparr>) = None"
    "serverConfigSave (credsDeps [])
       \<lparr>AccessKey = Username \<lparr>Username = ''admin'', Password = ''s3cr3tpass''\<rparr>,
        SecretKey = Password \<lparr>Username = ''admin'', Password = ''s3cr3tpass''\<rparr>\<rparr> = None"
    by (simp_all add: credsDeps_def)
  have u: "(credsDeps [])\<lparr>updateCredsOnPeers := \<lambda>_. peerErrs\<rparr> = credsDeps peerErrs" for peerErrs
    by (simp add: credsDeps_def)
  from ServiceCredentialsHandler_ignores_peer_failures[OF h k] h k
  show ?thesis by (simp add: u errorIf_def prod_eq_iff)
qed

end
